theory Spec2Isabelle
  imports Main
begin

unbundle bit_operations_syntax

section \<open>JavaScript values\<close>

text \<open>
  The handlers of \<^verbatim>\<open>http-wrapper-oauth.js\<close> read duck-typed request bodies, query
  strings and decoded token payloads. A value is one of JavaScript's JSON-shaped
  values or \<^verbatim>\<open>undefined\<close>; an object is its list of properties in insertion order.
  Numbers are integers here (timestamps, lifetimes); strings are byte strings, that is,
  text in its UTF-8 encoding.
\<close>

datatype jsval =
    Undefined
  | JNull
  | JBool bool
  | JNum int
  | JStr string
  | JArr "jsval list"
  | JObj "(string \<times> jsval) list"

text \<open>Reading a property of an object: \<^verbatim>\<open>undefined\<close> when it is missing.\<close>

definition get_prop :: "(string \<times> jsval) list \<Rightarrow> string \<Rightarrow> jsval" where
  "get_prop obj k = (case map_of obj k of None \<Rightarrow> Undefined | Some v \<Rightarrow> v)"

text \<open>A destructuring default \<^verbatim>\<open>{ k = d }\<close> applies to \<^verbatim>\<open>undefined\<close> only.\<close>

definition dflt :: "jsval \<Rightarrow> jsval \<Rightarrow> jsval" where
  "dflt v d = (if v = Undefined then d else v)"

text \<open>Truthiness, as \<^verbatim>\<open>if (v)\<close> and \<^verbatim>\<open>!v\<close> test it.\<close>

fun truthy :: "jsval \<Rightarrow> bool" where
  "truthy Undefined = False"
| "truthy JNull = False"
| "truthy (JBool b) = b"
| "truthy (JNum n) = (n \<noteq> 0)"
| "truthy (JStr s) = (s \<noteq> [])"
| "truthy (JArr xs) = True"
| "truthy (JObj fs) = True"

text \<open>
  Member access \<^verbatim>\<open>v.k\<close> on an arbitrary value: a TypeError (\<open>None\<close>) on
  \<^verbatim>\<open>null\<close> and \<^verbatim>\<open>undefined\<close>, the property on an object, and \<^verbatim>\<open>undefined\<close> on the
  other values (for a name such as \<^verbatim>\<open>exp\<close>, which no prototype defines).
\<close>

fun member_of :: "jsval \<Rightarrow> string \<Rightarrow> jsval option" where
  "member_of Undefined k = None"
| "member_of JNull k = None"
| "member_of (JObj fs) k = Some (get_prop fs k)"
| "member_of v k = Some Undefined"

text \<open>
  \<^verbatim>\<open>String(v)\<close>, as a template literal applies it, throws a TypeError on some JSON
  values: on an object that has a property named \<^verbatim>\<open>toString\<close> of its own (a JSON value
  is never callable, and \<^verbatim>\<open>valueOf\<close> returns the object), and on an array with such an
  element, since \<^verbatim>\<open>join\<close> converts the elements. The conversion to a number that a
  comparison applies goes through the same two methods and throws on the same values.
\<close>

fun to_string_throws :: "jsval \<Rightarrow> bool" where
  "to_string_throws (JObj fs) = (''toString'' \<in> fst ` set fs)"
| "to_string_throws (JArr xs) = (\<exists>x \<in> set xs. to_string_throws x)"
| "to_string_throws v = False"

section \<open>Encodings of the runtime\<close>

subsection \<open>Hexadecimal\<close>

definition hex_digit :: "nat \<Rightarrow> char" where
  "hex_digit n = ''0123456789abcdef'' ! (n mod 16)"

text \<open>\<^verbatim>\<open>buffer.toString('hex')\<close>: two lower-case digits for each byte.\<close>

fun to_hex :: "string \<Rightarrow> string" where
  "to_hex [] = []"
| "to_hex (c # cs) = hex_digit (of_char c div 16) # hex_digit (of_char c mod 16) # to_hex cs"

subsection \<open>Base64url\<close>

text \<open>
  \<^verbatim>\<open>buffer.toString('base64url')\<close>: RFC 4648 section 5 without padding. Three bytes
  become four 6-bit groups; one or two trailing bytes become two or three groups.
\<close>

fun enc_groups :: "nat list \<Rightarrow> nat list" where
  "enc_groups (a # b # c # r) =
     [a div 4, (a mod 4) * 16 + b div 16, (b mod 16) * 4 + c div 64, c mod 64] @ enc_groups r"
| "enc_groups [a, b] = [a div 4, (a mod 4) * 16 + b div 16, (b mod 16) * 4]"
| "enc_groups [a] = [a div 4, (a mod 4) * 16]"
| "enc_groups [] = []"

definition b64_digit :: "nat \<Rightarrow> char" where
  "b64_digit n =
     (if n < 26 then char_of (n + 65)
      else if n < 52 then char_of (n + 71)
      else if n < 62 then char_of (n - 4)
      else if n = 62 then CHR ''-''
      else CHR ''_'')"

definition base64url :: "string \<Rightarrow> string" where
  "base64url s = map b64_digit (enc_groups (map of_char s))"

text \<open>
  \<^verbatim>\<open>Buffer.from(s, 'base64url')\<close>: Node's decoder is forgiving. It accepts both the
  URL-safe and the standard alphabet, skips every other character, and stops at the
  first \<^verbatim>\<open>=\<close>. A trailing group of two or three digits gives one or two bytes.
\<close>

definition b64_value :: "char \<Rightarrow> nat option" where
  "b64_value c =
     (let n = (of_char c :: nat) in
      if 65 \<le> n \<and> n \<le> 90 then Some (n - 65)
      else if 97 \<le> n \<and> n \<le> 122 then Some (n - 71)
      else if 48 \<le> n \<and> n \<le> 57 then Some (n + 4)
      else if c = CHR ''-'' \<or> c = CHR ''+'' then Some 62
      else if c = CHR ''_'' \<or> c = CHR ''/'' then Some 63
      else None)"

fun dec_groups :: "nat list \<Rightarrow> nat list" where
  "dec_groups (w # x # y # z # r) =
     [w * 4 + x div 16, (x mod 16) * 16 + y div 4, (y mod 4) * 64 + z] @ dec_groups r"
| "dec_groups [w, x, y] = [w * 4 + x div 16, (x mod 16) * 16 + y div 4]"
| "dec_groups [w, x] = [w * 4 + x div 16]"
| "dec_groups r = []"

definition base64url_decode :: "string \<Rightarrow> string" where
  "base64url_decode s =
     map char_of (dec_groups (List.map_filter b64_value (takeWhile (\<lambda>c. c \<noteq> CHR ''='') s)))"

subsection \<open>Splitting\<close>

text \<open>\<^verbatim>\<open>s.split(d)\<close> for a one-character separator: the empty string gives one empty part.\<close>

fun split_on :: "char \<Rightarrow> string \<Rightarrow> string list" where
  "split_on d [] = [[]]"
| "split_on d (c # cs) =
     (if c = d then [] # split_on d cs
      else (case split_on d cs of p # ps \<Rightarrow> (c # p) # ps | [] \<Rightarrow> [[c]]))"

text \<open>\<^verbatim>\<open>Date.now().toString()\<close>: the decimal numeral of a timestamp.\<close>

fun decimal :: "nat \<Rightarrow> string" where
  "decimal n =
     (if n < 10 then [char_of (n + 48)]
      else decimal (n div 10) @ [char_of (n mod 10 + 48)])"

definition show_int :: "int \<Rightarrow> string" where
  "show_int i = (if i < 0 then CHR ''-'' # decimal (nat (- i)) else decimal (nat i))"

subsection \<open>URLs\<close>

text \<open>
  A parsed \<^verbatim>\<open>URL\<close> object: what precedes the query, the query as the ordered list of
  pairs that \<^verbatim>\<open>url.searchParams\<close> exposes, and the fragment.
\<close>

record url =
  href_base :: string
  searchParams :: "(string \<times> string) list"
  hash :: string

text \<open>
  \<^verbatim>\<open>searchParams.set(name, value)\<close>: the first pair of that name takes the value and
  the later ones are removed; without such a pair, one is appended.
\<close>

fun params_set :: "string \<Rightarrow> string \<Rightarrow> (string \<times> string) list \<Rightarrow> (string \<times> string) list" where
  "params_set k v [] = [(k, v)]"
| "params_set k v (p # ps) =
     (if fst p = k then (k, v) # filter (\<lambda>q. fst q \<noteq> k) ps else p # params_set k v ps)"

definition searchParams_set :: "string \<Rightarrow> string \<Rightarrow> url \<Rightarrow> url" where
  "searchParams_set k v u = u\<lparr>searchParams := params_set k v (searchParams u)\<rparr>"

text \<open>\<^verbatim>\<open>searchParams.get(name)\<close>: the value of the first pair of that name.\<close>

definition searchParams_get :: "url \<Rightarrow> string \<Rightarrow> string option" where
  "searchParams_get u k = map_of (searchParams u) k"

section \<open>The runtime\<close>

text \<open>
  What the program calls and does not define: the hash function SHA-256 (raw
  digest), \<^verbatim>\<open>JSON.stringify\<close> followed by the UTF-8 encoding of
  \<^verbatim>\<open>Buffer.from\<close>, the UTF-8 decoding of \<^verbatim>\<open>buffer.toString()\<close> followed by
  \<^verbatim>\<open>JSON.parse\<close> (\<open>None\<close> when it throws), the conversions to a number (\<open>None\<close> for
  NaN) and to a string of a value that is not one already, the constructor
  \<^verbatim>\<open>new URL(x)\<close> (\<open>None\<close> when it throws), and \<^verbatim>\<open>new Date(t).toISOString()\<close>.
  Every function of the program takes the runtime as its first argument.
\<close>

record runtime =
  sha256 :: "string \<Rightarrow> string"
  json_stringify :: "jsval \<Rightarrow> string"
  json_parse :: "string \<Rightarrow> jsval option"
  to_number :: "jsval \<Rightarrow> int option"
  to_string :: "jsval \<Rightarrow> string"
  url_parse :: "jsval \<Rightarrow> url option"
  toISOString :: "int \<Rightarrow> string"

definition number_of :: "runtime \<Rightarrow> jsval \<Rightarrow> int option" where
  "number_of R v =
     (case v of
        JNum n \<Rightarrow> Some n
      | JBool b \<Rightarrow> Some (if b then 1 else 0)
      | JNull \<Rightarrow> Some 0
      | _ \<Rightarrow> to_number R v)"

definition string_of :: "runtime \<Rightarrow> jsval \<Rightarrow> string" where
  "string_of R v = (case v of JStr s \<Rightarrow> s | _ \<Rightarrow> to_string R v)"

section \<open>Configuration and state\<close>

text \<open>
  The constants read from the environment at start-up. \<open>AUTH_ENABLED\<close> stands for
  \<^verbatim>\<open>process.env.AUTH_ENABLED === 'true'\<close>; \<open>API_KEY\<close> is absent when the variable is unset.
  The two lifetimes are the integers that \<^verbatim>\<open>parseInt\<close> reads, in minutes.
\<close>

record config =
  OAUTH_ENABLED :: bool
  OAUTH_SECRET_KEY :: string
  OAUTH_ACCESS_TOKEN_EXPIRE_MINUTES :: int
  OAUTH_AUTHORIZATION_CODE_EXPIRE_MINUTES :: int
  AUTH_ENABLED :: bool
  API_KEY :: "string option"

text \<open>The context stored with a pending authorization code.\<close>

record grant =
  grant_client_id :: jsval
  grant_redirect_uri :: jsval
  grant_scope :: jsval
  expires_at :: int

text \<open>
  The two process-wide maps. Their keys are the generated identifiers, which are strings;
  a lookup with a value that is no string finds nothing.
\<close>

record server =
  oauthClients :: "string \<rightharpoonup> (string \<times> jsval) list"
  authorizationCodes :: "string \<rightharpoonup> grant"

definition map_get :: "(string \<rightharpoonup> 'a) \<Rightarrow> jsval \<Rightarrow> 'a option" where
  "map_get m k = (case k of JStr s \<Rightarrow> m s | _ \<Rightarrow> None)"

definition map_delete :: "(string \<rightharpoonup> 'a) \<Rightarrow> jsval \<Rightarrow> (string \<rightharpoonup> 'a)" where
  "map_delete m k = (case k of JStr s \<Rightarrow> m(s := None) | _ \<Rightarrow> m)"

text \<open>
  A response is \<^verbatim>\<open>res.status(n).json(body)\<close> (\<^verbatim>\<open>res.json(body)\<close> has status 200) or
  \<^verbatim>\<open>res.redirect(url)\<close>, a 302 whose \<^verbatim>\<open>Location\<close> is the serialised URL. The body is
  the value handed to \<^verbatim>\<open>res.json\<close>; serialising it leaves out the properties whose
  value is \<^verbatim>\<open>undefined\<close>. \<open>NotFound\<close> is the 404 page that Express sends for a path
  on which no route is mounted.
\<close>

datatype response = Json nat jsval | Redirect url | NotFound

definition error_body :: "string \<Rightarrow> jsval" where
  "error_body msg = JObj [(''error'', JStr msg)]"

section \<open>The token codec: class SimpleJWT\<close>

datatype jwt_error = InvalidFormat | InvalidSignature | ParseError

definition jwt_header :: jsval where
  "jwt_header = JObj [(''alg'', JStr ''HS256''), (''typ'', JStr ''JWT'')]"

text \<open>
  \<^verbatim>\<open>crypto.createHmac('sha256', secret)\<close> is HMAC as RFC 2104 defines it, with blocks of
  64 bytes: a key longer than a block is hashed first, the key is filled with zero
  bytes to a block, and the digest is
  \<^verbatim>\<open>H((block XOR 0x5c..) || H((block XOR 0x36..) || data))\<close>.
\<close>

definition key_block :: "runtime \<Rightarrow> string \<Rightarrow> string" where
  "key_block R key =
     (let k = (if length key > 64 then sha256 R key else key)
      in k @ replicate (64 - length k) (CHR 0x00))"

definition xor_pad :: "nat \<Rightarrow> string \<Rightarrow> string" where
  "xor_pad p s = map (\<lambda>c. char_of ((of_char c :: nat) XOR p)) s"

text \<open>The message of the outer hash: the outer block, then the inner digest.\<close>

definition hmac_message :: "runtime \<Rightarrow> string \<Rightarrow> string \<Rightarrow> string" where
  "hmac_message R key data =
     xor_pad 0x5c (key_block R key) @ sha256 R (xor_pad 0x36 (key_block R key) @ data)"

definition hmac_sha256 :: "runtime \<Rightarrow> string \<Rightarrow> string \<Rightarrow> string" where
  "hmac_sha256 R key data = sha256 R (hmac_message R key data)"

text \<open>\<^verbatim>\<open>crypto.createHmac('sha256', secret).update(data).digest('base64url')\<close>\<close>

definition hmac_digest :: "runtime \<Rightarrow> string \<Rightarrow> string \<Rightarrow> string" where
  "hmac_digest R secret data = base64url (hmac_sha256 R secret data)"

definition encode :: "runtime \<Rightarrow> string \<Rightarrow> jsval \<Rightarrow> string" where
  "encode R secret payload =
     (let headerEncoded = base64url (json_stringify R jwt_header);
          payloadEncoded = base64url (json_stringify R payload);
          signature = hmac_digest R secret (headerEncoded @ ''.'' @ payloadEncoded)
      in headerEncoded @ ''.'' @ payloadEncoded @ ''.'' @ signature)"

definition decode :: "runtime \<Rightarrow> string \<Rightarrow> string \<Rightarrow> jwt_error + jsval" where
  "decode R secret token =
     (case split_on CHR ''.'' token of
        [headerEncoded, payloadEncoded, signature] \<Rightarrow>
          (let expectedSignature = hmac_digest R secret (headerEncoded @ ''.'' @ payloadEncoded)
           in if signature \<noteq> expectedSignature then Inl InvalidSignature
              else (case json_parse R (base64url_decode payloadEncoded) of
                      None \<Rightarrow> Inl ParseError
                    | Some payload \<Rightarrow> Inr payload))
      | _ \<Rightarrow> Inl InvalidFormat)"


section \<open>The authentication middleware\<close>

record headers =
  authorization :: "string option"
  x_api_key :: "string option"

text \<open>
  The middleware either calls \<^verbatim>\<open>next()\<close>, having set \<^verbatim>\<open>req.user\<close> and
  \<^verbatim>\<open>req.authMethod\<close> or left them unset, or answers itself. Whatever the \<^verbatim>\<open>try\<close> block
  throws (the codec's errors, a syntax error of \<^verbatim>\<open>JSON.parse\<close>, the TypeError of reading
  \<^verbatim>\<open>exp\<close> off \<^verbatim>\<open>null\<close>) is answered \<^verbatim>\<open>Invalid token\<close>.
\<close>

datatype auth = Next "jsval option" "string option" | Denied response

text \<open>\<^verbatim>\<open>authHeader && authHeader.startsWith('Bearer ')\<close>, then \<^verbatim>\<open>authHeader.substring(7)\<close>.\<close>

definition bearer_token :: "string option \<Rightarrow> string option" where
  "bearer_token authHeader =
     (case authHeader of
        None \<Rightarrow> None
      | Some h \<Rightarrow> if take 7 h = ''Bearer '' then Some (drop 7 h) else None)"

text \<open>
  \<^verbatim>\<open>payload.exp && Date.now() / 1000 > payload.exp\<close>, with the clock in milliseconds;
  the comparison is false when \<^verbatim>\<open>exp\<close> converts to NaN. It throws, inside the \<^verbatim>\<open>try\<close>
  block, when \<^verbatim>\<open>exp\<close> is truthy and its conversion throws.
\<close>

definition exp_elapsed :: "runtime \<Rightarrow> int \<Rightarrow> jsval \<Rightarrow> bool" where
  "exp_elapsed R now e =
     (truthy e \<and> (case number_of R e of None \<Rightarrow> False | Some n \<Rightarrow> now > 1000 * n))"

definition authenticate :: "runtime \<Rightarrow> config \<Rightarrow> int \<Rightarrow> headers \<Rightarrow> auth" where
  "authenticate R cfg now hdrs =
     (let authHeader = authorization hdrs;
          apiKeyHeader = x_api_key hdrs
      in case (if OAUTH_ENABLED cfg then bearer_token authHeader else None) of
           Some token \<Rightarrow>
             (case decode R (OAUTH_SECRET_KEY cfg) token of
                Inl err \<Rightarrow> Denied (Json 401 (error_body ''Invalid token''))
              | Inr payload \<Rightarrow>
                  (case member_of payload ''exp'' of
                     None \<Rightarrow> Denied (Json 401 (error_body ''Invalid token''))
                   | Some e \<Rightarrow>
                       if truthy e \<and> to_string_throws e
                       then Denied (Json 401 (error_body ''Invalid token''))
                       else if exp_elapsed R now e
                       then Denied (Json 401 (error_body ''Token expired''))
                       else Next (Some payload) (Some ''oauth'')))
         | None \<Rightarrow>
             if AUTH_ENABLED cfg \<and> apiKeyHeader \<noteq> None \<and> apiKeyHeader \<noteq> Some [] then
               (if apiKeyHeader \<noteq> API_KEY cfg
                then Denied (Json 401 (error_body ''Invalid API key''))
                else Next None (Some ''api_key''))
             else if \<not> AUTH_ENABLED cfg \<and> \<not> OAUTH_ENABLED cfg then Next None None
             else Denied (Json 401 (error_body ''Authentication required'')))"

section \<open>The authorization server\<close>

text \<open>
  A handler takes what the request draws from outside (every reading of the clock, in
  milliseconds, and the bytes of \<^verbatim>\<open>crypto.randomBytes\<close>), the state and the parsed
  request, and returns the response and the new state. The registration and the
  authorization handler read the clock once; the token handler reads it three times.

  The query of a GET is the object that the query parser delivers; its values are
  strings or arrays of strings. The body of a POST is the object that a body parser
  delivers, any JSON object, or nothing (\<open>None\<close>): \<^verbatim>\<open>req.body\<close> is \<^verbatim>\<open>undefined\<close> when
  no parser took the request, and destructuring it throws. Each handler's \<^verbatim>\<open>catch\<close>
  answers what its \<^verbatim>\<open>try\<close> block throws with a 400 of its own.
\<close>

subsection \<open>POST /oauth/register\<close>

text \<open>
  The client is stored before the handler logs
  \<^verbatim>\<open>`Registered OAuth client: ${client_name} (${clientId})`\<close>; when the name cannot be
  converted to a string the template throws, and the \<^verbatim>\<open>catch\<close> answers 400 with the
  client already in the registry.
\<close>

definition oauth_register ::
  "runtime \<Rightarrow> int \<Rightarrow> string \<Rightarrow> string \<Rightarrow> server \<Rightarrow> (string \<times> jsval) list option
     \<Rightarrow> response \<times> server" where
  "oauth_register R now random8 random16 srv request_body =
     (case request_body of
        None \<Rightarrow> (Json 400 (error_body ''Invalid registration request''), srv)
      | Some body \<Rightarrow>
          (let client_name = get_prop body ''client_name'';
               redirect_uris = dflt (get_prop body ''redirect_uris'') (JArr []);
               grant_types = dflt (get_prop body ''grant_types'') (JArr [JStr ''authorization_code'']);
               response_types = dflt (get_prop body ''response_types'') (JArr [JStr ''code'']);
               scope = dflt (get_prop body ''scope'') (JStr ''read write'');
               clientId = ''mcp_client_'' @ to_hex random8;
               clientSecret = to_hex random16;
               client =
                 [(''client_id'', JStr clientId),
                  (''client_secret'', JStr clientSecret),
                  (''client_name'', client_name),
                  (''redirect_uris'', redirect_uris),
                  (''grant_types'', grant_types),
                  (''response_types'', response_types),
                  (''scope'', scope),
                  (''token_endpoint_auth_method'', JStr ''client_secret_basic''),
                  (''created_at'', JStr (toISOString R now))];
               srv' = srv\<lparr>oauthClients := (oauthClients srv)(clientId \<mapsto> client)\<rparr>
           in if to_string_throws client_name
              then (Json 400 (error_body ''Invalid registration request''), srv')
              else (Json 200 (JObj client), srv')))"

subsection \<open>GET /oauth/authorize\<close>

text \<open>
  The code is stored before the redirect URL is built; when \<^verbatim>\<open>new URL\<close> throws, the
  \<^verbatim>\<open>catch\<close> answers 400 and the stored code stays.
\<close>

definition oauth_authorize ::
  "runtime \<Rightarrow> config \<Rightarrow> int \<Rightarrow> string \<Rightarrow> server \<Rightarrow> (string \<times> jsval) list \<Rightarrow> response \<times> server" where
  "oauth_authorize R cfg now random16 srv query =
     (let client_id = get_prop query ''client_id'';
          response_type = get_prop query ''response_type'';
          redirect_uri = get_prop query ''redirect_uri'';
          scope = get_prop query ''scope'';
          state = get_prop query ''state''
      in if response_type \<noteq> JStr ''code''
         then (Json 400 (error_body ''unsupported_response_type''), srv)
         else
           (case map_get (oauthClients srv) client_id of
              None \<Rightarrow> (Json 400 (error_body ''invalid_client''), srv)
            | Some client \<Rightarrow>
                (let authCode = to_hex random16;
                     expiresAt = now + OAUTH_AUTHORIZATION_CODE_EXPIRE_MINUTES cfg * 60 * 1000;
                     srv' = srv\<lparr>authorizationCodes := (authorizationCodes srv)(authCode \<mapsto>
                              \<lparr>grant_client_id = client_id,
                               grant_redirect_uri = redirect_uri,
                               grant_scope = scope,
                               expires_at = expiresAt\<rparr>)\<rparr>
                 in case url_parse R redirect_uri of
                      None \<Rightarrow> (Json 400 (error_body ''Invalid authorization request''), srv')
                    | Some redirectUrl \<Rightarrow>
                        (let withCode = searchParams_set ''code'' authCode redirectUrl;
                             withState =
                               (if truthy state
                                then searchParams_set ''state'' (string_of R state) withCode
                                else withCode)
                         in (Redirect withState, srv')))))"

subsection \<open>POST /oauth/token\<close>

text \<open>
  The three readings of \<^verbatim>\<open>Date.now()\<close>, in the order of the calls: for the expiry test,
  for \<^verbatim>\<open>iat\<close> and for \<^verbatim>\<open>exp\<close>.
\<close>

record token_clock =
  at_check :: int
  at_iat :: int
  at_exp :: int

definition oauth_token ::
  "runtime \<Rightarrow> config \<Rightarrow> token_clock \<Rightarrow> server \<Rightarrow> (string \<times> jsval) list option
     \<Rightarrow> response \<times> server" where
  "oauth_token R cfg clock srv request_body =
     (case request_body of
        None \<Rightarrow> (Json 400 (error_body ''Invalid token request''), srv)
      | Some body \<Rightarrow>
          (let grant_type = get_prop body ''grant_type'';
               code = get_prop body ''code'';
               client_id = get_prop body ''client_id'';
               client_secret = get_prop body ''client_secret''
           in if grant_type \<noteq> JStr ''authorization_code''
              then (Json 400 (error_body ''unsupported_grant_type''), srv)
              else
                (case map_get (authorizationCodes srv) code of
                   None \<Rightarrow> (Json 400 (error_body ''invalid_grant''), srv)
                 | Some authCodeData \<Rightarrow>
                     if at_check clock > expires_at authCodeData
                     then (Json 400 (error_body ''invalid_grant''),
                           srv\<lparr>authorizationCodes := map_delete (authorizationCodes srv) code\<rparr>)
                     else
                       (case map_get (oauthClients srv) client_id of
                          None \<Rightarrow> (Json 400 (error_body ''invalid_client''), srv)
                        | Some client \<Rightarrow>
                            if get_prop client ''client_secret'' \<noteq> client_secret
                            then (Json 400 (error_body ''invalid_client''), srv)
                            else
                              (let accessTokenPayload = JObj
                                     [(''client_id'', client_id),
                                      (''scope'', grant_scope authCodeData),
                                      (''iat'', JNum (at_iat clock div 1000)),
                                      (''exp'', JNum (at_exp clock div 1000
                                                       + OAUTH_ACCESS_TOKEN_EXPIRE_MINUTES cfg * 60)),
                                      (''sub'', client_id)];
                                   accessToken = encode R (OAUTH_SECRET_KEY cfg) accessTokenPayload
                               in (Json 200 (JObj
                                     [(''access_token'', JStr accessToken),
                                      (''token_type'', JStr ''Bearer''),
                                      (''expires_in'', JNum (OAUTH_ACCESS_TOKEN_EXPIRE_MINUTES cfg * 60)),
                                      (''scope'', grant_scope authCodeData)]),
                                   srv\<lparr>authorizationCodes :=
                                          map_delete (authorizationCodes srv) code\<rparr>))))))"

subsection \<open>GET /oauth/clients/:clientId\<close>

text \<open>\<^verbatim>\<open>const { client_secret, ...clientInfo } = client\<close>: every property but the named one.\<close>

definition rest_without :: "string \<Rightarrow> (string \<times> jsval) list \<Rightarrow> (string \<times> jsval) list" where
  "rest_without k obj = filter (\<lambda>p. fst p \<noteq> k) obj"

definition oauth_clients :: "server \<Rightarrow> string \<Rightarrow> response" where
  "oauth_clients srv clientId =
     (case oauthClients srv clientId of
        None \<Rightarrow> Json 404 (error_body ''Client not found'')
      | Some client \<Rightarrow> Json 200 (JObj (rest_without ''client_secret'' client)))"

subsection \<open>The routes\<close>

text \<open>
  The four routes of the authorization server, each request with what it draws from the
  clock and from \<^verbatim>\<open>crypto.randomBytes\<close>. The routes are mounted inside
  \<^verbatim>\<open>if (OAUTH_ENABLED) { ... }\<close>; with OAuth disabled no handler runs and Express
  answers 404. The server is run over a sequence of requests. A request issues the code
  \<open>c\<close> when it is an authorization request whose random bytes spell \<open>c\<close>.
\<close>

datatype request =
    PostRegister int string string "(string \<times> jsval) list option"
  | GetAuthorize int string "(string \<times> jsval) list"
  | PostToken token_clock "(string \<times> jsval) list option"
  | GetClient string

fun route :: "runtime \<Rightarrow> config \<Rightarrow> server \<Rightarrow> request \<Rightarrow> response \<times> server" where
  "route R cfg srv (PostRegister now random8 random16 body) =
     oauth_register R now random8 random16 srv body"
| "route R cfg srv (GetAuthorize now random16 query) =
     oauth_authorize R cfg now random16 srv query"
| "route R cfg srv (PostToken clock body) = oauth_token R cfg clock srv body"
| "route R cfg srv (GetClient clientId) = (oauth_clients srv clientId, srv)"

definition handle :: "runtime \<Rightarrow> config \<Rightarrow> server \<Rightarrow> request \<Rightarrow> response \<times> server" where
  "handle R cfg srv r = (if OAUTH_ENABLED cfg then route R cfg srv r else (NotFound, srv))"

fun serve :: "runtime \<Rightarrow> config \<Rightarrow> server \<Rightarrow> request list \<Rightarrow> server" where
  "serve R cfg srv [] = srv"
| "serve R cfg srv (r # rs) = serve R cfg (snd (handle R cfg srv r)) rs"

fun issues :: "request \<Rightarrow> string \<Rightarrow> bool" where
  "issues (GetAuthorize now random16 query) c = (to_hex random16 = c)"
| "issues r c = False"

section \<open>The memory service\<close>

text \<open>
  Class \<^verbatim>\<open>MCPMemoryService\<close>: the list in memory and the document last written to
  \<^verbatim>\<open>memories.json\<close> (\<open>None\<close> while there is no file). A write that fails is logged and
  ignored; \<open>disk_ok\<close> tells whether \<^verbatim>\<open>fs.writeFile\<close> succeeds.
\<close>

record MCPMemoryService =
  fallbackMode :: bool
  memories :: "jsval list"
  memoryFile :: "jsval option"

definition saveFallbackMemories :: "bool \<Rightarrow> MCPMemoryService \<Rightarrow> MCPMemoryService" where
  "saveFallbackMemories disk_ok svc =
     (if disk_ok then svc\<lparr>memoryFile := Some (JArr (memories svc))\<rparr> else svc)"

text \<open>A method returns a value or throws an \<^verbatim>\<open>Error\<close> with a message (\<open>Inl\<close>).\<close>

definition callMCPService :: "string \<Rightarrow> jsval \<Rightarrow> string + jsval" where
  "callMCPService method params = Inl ''MCP Service integration not yet implemented''"

definition storeMemory ::
  "runtime \<Rightarrow> int \<Rightarrow> bool \<Rightarrow> MCPMemoryService \<Rightarrow> jsval \<Rightarrow> jsval \<Rightarrow> jsval
     \<Rightarrow> (string + jsval) \<times> MCPMemoryService" where
  "storeMemory R now disk_ok svc content metadata tags =
     (if \<not> truthy content then (Inl ''Content is required'', svc)
      else if fallbackMode svc then
        (let memory = JObj
               [(''id'', JStr (show_int now)),
                (''content'', content),
                (''metadata'', metadata),
                (''tags'', tags),
                (''created_at'', JStr (toISOString R now)),
                (''updated_at'', JStr (toISOString R now))]
         in (Inr memory, saveFallbackMemories disk_ok (svc\<lparr>memories := memories svc @ [memory]\<rparr>)))
      else
        (callMCPService ''store''
           (JObj [(''content'', content), (''metadata'', metadata), (''tags'', tags)]), svc))"

subsection \<open>POST /memory/store\<close>

text \<open>The handler behind the middleware: whatever \<^verbatim>\<open>storeMemory\<close> throws becomes a 500.\<close>

definition memory_store ::
  "runtime \<Rightarrow> int \<Rightarrow> bool \<Rightarrow> MCPMemoryService \<Rightarrow> (string \<times> jsval) list
     \<Rightarrow> response \<times> MCPMemoryService" where
  "memory_store R now disk_ok svc body =
     (let content = get_prop body ''content'';
          metadata = dflt (get_prop body ''metadata'') (JObj []);
          tags = dflt (get_prop body ''tags'') (JArr [])
      in case storeMemory R now disk_ok svc content metadata tags of
           (Inl message, svc') \<Rightarrow> (Json 500 (error_body message), svc')
         | (Inr memory, svc') \<Rightarrow>
             (Json 200 (JObj
                [(''success'', JBool True),
                 (''memory_id'', case member_of memory ''id'' of None \<Rightarrow> Undefined | Some i \<Rightarrow> i),
                 (''memory'', memory)]),
              svc'))"

definition post_memory_store ::
  "runtime \<Rightarrow> config \<Rightarrow> int \<Rightarrow> bool \<Rightarrow> headers \<Rightarrow> MCPMemoryService \<Rightarrow> (string \<times> jsval) list
     \<Rightarrow> response \<times> MCPMemoryService" where
  "post_memory_store R cfg now disk_ok hdrs svc body =
     (case authenticate R cfg now hdrs of
        Denied r \<Rightarrow> (r, svc)
      | Next user authMethod \<Rightarrow> memory_store R now disk_ok svc body)"

subsection \<open>The same route in the test server\<close>

text \<open>
  The repository's \<^verbatim>\<open>test-server.js\<close> keeps the list in a variable and checks the
  content in the handler itself.
\<close>

definition test_server_memory_store ::
  "runtime \<Rightarrow> int \<Rightarrow> jsval list \<Rightarrow> (string \<times> jsval) list \<Rightarrow> response \<times> jsval list" where
  "test_server_memory_store R now mems body =
     (let content = get_prop body ''content'';
          metadata = dflt (get_prop body ''metadata'') (JObj []);
          tags = dflt (get_prop body ''tags'') (JArr [])
      in if \<not> truthy content then (Json 400 (error_body ''Content is required''), mems)
         else
           (let memory = JObj
                  [(''id'', JStr (show_int now)),
                   (''content'', content),
                   (''metadata'', metadata),
                   (''tags'', tags),
                   (''created_at'', JStr (toISOString R now)),
                   (''updated_at'', JStr (toISOString R now))]
            in (Json 200 (JObj [(''success'', JBool True),
                                (''memory_id'', JStr (show_int now)),
                                (''memory'', memory)]),
                mems @ [memory])))"

section \<open>A runtime for the examples\<close>

text \<open>
  The examples below run the program on a small stand-in for the runtime: it serialises
  and parses the documents of a table, knows the URLs of a table, and its hash
  function returns its input. It is a test double, no model of Node's cryptography;
  the general theorems hold for every runtime.
\<close>

definition plain_document :: jsval where
  "plain_document = JObj [(''sub'', JStr ''app'')]"

definition expired_document :: jsval where
  "expired_document = JObj [(''sub'', JStr ''app''), (''exp'', JNum 1700000000)]"

definition flagged_document :: jsval where
  "flagged_document = JObj [(''sub'', JStr ''app''), (''exp'', JBool True)]"

definition unconvertible_document :: jsval where
  "unconvertible_document =
     JObj [(''sub'', JStr ''app''), (''exp'', JObj [(''toString'', JNum 1)])]"

definition test_documents :: "(string \<times> jsval) list" where
  \<open>test_documents =
     [(''{"sub":"app"}'', plain_document),
      (''{"sub":"app","exp":1700000000}'', expired_document),
      (''{"sub":"app","exp":true}'', flagged_document),
      (''{"sub":"app","exp":{"toString":1}}'', unconvertible_document)]\<close>

definition test_urls :: "(string \<times> url) list" where
  "test_urls =
     [(''http://localhost:3000/callback'',
         \<lparr>href_base = ''http://localhost:3000/callback'', searchParams = [], hash = []\<rparr>),
      (''https://elsewhere.example/collect'',
         \<lparr>href_base = ''https://elsewhere.example/collect'', searchParams = [], hash = []\<rparr>)]"

definition test_runtime :: runtime where
  "test_runtime =
     \<lparr>sha256 = (\<lambda>data. data),
      json_stringify = (\<lambda>v. case find (\<lambda>d. snd d = v) test_documents of
                              None \<Rightarrow> ''null'' | Some d \<Rightarrow> fst d),
      json_parse = map_of test_documents,
      to_number = (\<lambda>v. None),
      to_string = (\<lambda>v. []),
      url_parse = (\<lambda>v. case v of JStr s \<Rightarrow> map_of test_urls s | _ \<Rightarrow> None),
      toISOString = show_int\<rparr>"


subsection \<open>Configurations and headers\<close>

definition example_cfg :: config where
  "example_cfg =
     \<lparr>OAUTH_ENABLED = True, OAUTH_SECRET_KEY = ''k'',
      OAUTH_ACCESS_TOKEN_EXPIRE_MINUTES = 60,
      OAUTH_AUTHORIZATION_CODE_EXPIRE_MINUTES = 10,
      AUTH_ENABLED = False, API_KEY = None\<rparr>"

definition open_cfg :: config where
  "open_cfg = example_cfg\<lparr>OAUTH_ENABLED := False\<rparr>"

definition key_cfg :: config where
  "key_cfg = example_cfg\<lparr>OAUTH_ENABLED := False, AUTH_ENABLED := True, API_KEY := Some ''key''\<rparr>"

definition bearer :: "string \<Rightarrow> headers" where
  "bearer token = \<lparr>authorization = Some (''Bearer '' @ token), x_api_key = None\<rparr>"

definition api_key_header :: "string \<Rightarrow> headers" where
  "api_key_header k = \<lparr>authorization = None, x_api_key = Some k\<rparr>"

definition no_headers :: headers where
  "no_headers = \<lparr>authorization = None, x_api_key = None\<rparr>"

subsection \<open>A server with one client and one pending code\<close>

definition example_client :: "(string \<times> jsval) list" where
  "example_client =
     [(''client_id'', JStr ''mcp_client_00''),
      (''client_secret'', JStr ''5ec2e7''),
      (''client_name'', JStr ''Test''),
      (''redirect_uris'', JArr [JStr ''http://localhost:3000/callback''])]"

definition example_grant :: grant where
  "example_grant =
     \<lparr>grant_client_id = JStr ''mcp_client_00'',
      grant_redirect_uri = JStr ''http://localhost:3000/callback'',
      grant_scope = JStr ''read'',
      expires_at = 600000\<rparr>"

definition example_server :: server where
  "example_server =
     \<lparr>oauthClients = [''mcp_client_00'' \<mapsto> example_client],
      authorizationCodes = [''c0de'' \<mapsto> example_grant]\<rparr>"

definition empty_server :: server where
  "empty_server = \<lparr>oauthClients = Map.empty, authorizationCodes = Map.empty\<rparr>"

subsection \<open>Requests\<close>

definition unprintable_name_request :: "(string \<times> jsval) list" where
  "unprintable_name_request = [(''client_name'', JObj [(''toString'', JNum 1)])]"

definition register_request :: "(string \<times> jsval) list" where
  "register_request =
     [(''client_name'', JStr ''Test''),
      (''redirect_uris'', JArr [JStr ''http://localhost:3000/callback''])]"

definition nameless_request :: "(string \<times> jsval) list" where
  "nameless_request = [(''redirect_uris'', JArr [JStr ''http://localhost:3000/callback''])]"

definition authorize_query :: "(string \<times> jsval) list" where
  "authorize_query =
     [(''client_id'', JStr ''mcp_client_00''),
      (''response_type'', JStr ''code''),
      (''redirect_uri'', JStr ''http://localhost:3000/callback''),
      (''scope'', JStr ''read write''),
      (''state'', JStr ''test-state'')]"

definition foreign_redirect_query :: "(string \<times> jsval) list" where
  "foreign_redirect_query =
     [(''client_id'', JStr ''mcp_client_00''),
      (''response_type'', JStr ''code''),
      (''redirect_uri'', JStr ''https://elsewhere.example/collect''),
      (''scope'', JStr ''read'')]"

definition no_redirect_query :: "(string \<times> jsval) list" where
  "no_redirect_query =
     [(''client_id'', JStr ''mcp_client_00''),
      (''response_type'', JStr ''code'')]"

definition empty_state_query :: "(string \<times> jsval) list" where
  "empty_state_query =
     [(''client_id'', JStr ''mcp_client_00''),
      (''response_type'', JStr ''code''),
      (''redirect_uri'', JStr ''http://localhost:3000/callback''),
      (''state'', JStr [])]"

definition token_query :: "(string \<times> jsval) list" where
  "token_query = [(''client_id'', JStr ''mcp_client_00''), (''response_type'', JStr ''token'')]"

definition stranger_query :: "(string \<times> jsval) list" where
  "stranger_query = [(''client_id'', JStr ''mcp_client_99''), (''response_type'', JStr ''code'')]"

text \<open>A clock that stands still at \<open>t\<close>, and one that ticks into the next second.\<close>

definition still_clock :: "int \<Rightarrow> token_clock" where
  "still_clock t = \<lparr>at_check = t, at_iat = t, at_exp = t\<rparr>"

definition ticking_clock :: token_clock where
  "ticking_clock = \<lparr>at_check = 1999, at_iat = 1999, at_exp = 2000\<rparr>"

definition token_request :: "(string \<times> jsval) list" where
  "token_request =
     [(''grant_type'', JStr ''authorization_code''),
      (''code'', JStr ''c0de''),
      (''redirect_uri'', JStr ''http://localhost:3000/callback''),
      (''client_id'', JStr ''mcp_client_00''),
      (''client_secret'', JStr ''5ec2e7'')]"

definition wrong_secret_request :: "(string \<times> jsval) list" where
  "wrong_secret_request =
     [(''grant_type'', JStr ''authorization_code''),
      (''code'', JStr ''c0de''),
      (''client_id'', JStr ''mcp_client_00''),
      (''client_secret'', JStr ''guess'')]"

definition password_request :: "(string \<times> jsval) list" where
  "password_request =
     [(''grant_type'', JStr ''password''),
      (''code'', JStr ''c0de''),
      (''client_id'', JStr ''mcp_client_00''),
      (''client_secret'', JStr ''5ec2e7'')]"

definition example_claims :: jsval where
  "example_claims =
     JObj [(''client_id'', JStr ''mcp_client_00''),
           (''scope'', JStr ''read''),
           (''iat'', JNum 1),
           (''exp'', JNum 3601),
           (''sub'', JStr ''mcp_client_00'')]"

definition callback_url :: url where
  "callback_url = \<lparr>href_base = ''http://localhost:3000/callback'', searchParams = [], hash = []\<rparr>"

definition empty_content_request :: "(string \<times> jsval) list" where
  "empty_content_request = [(''content'', JStr [])]"

definition example_service :: MCPMemoryService where
  "example_service = \<lparr>fallbackMode = True, memories = [], memoryFile = None\<rparr>"

text \<open>The target of a redirect and its query parameters, read off a response.\<close>

fun location :: "response \<Rightarrow> string" where
  "location (Redirect target) = href_base target"
| "location (Json status b) = []"
| "location NotFound = []"

fun location_param :: "response \<Rightarrow> string \<Rightarrow> string option" where
  "location_param (Redirect target) k = searchParams_get target k"
| "location_param (Json status b) k = None"
| "location_param NotFound k = None"

section \<open>Facts about the encodings\<close>

subsection \<open>Base64url output has no dot and decodes to its input\<close>

lemma b64_digit_code: "(of_char (b64_digit n) :: nat) \<noteq> 46"
  unfolding b64_digit_def by auto

lemma b64_digit_no_dot: "b64_digit n \<noteq> CHR ''.''"
proof
  assume "b64_digit n = CHR ''.''"
  then have "(of_char (b64_digit n) :: nat) = of_char CHR ''.''" by simp
  then show False using b64_digit_code [of n] by simp
qed

lemma base64url_no_dot: "CHR ''.'' \<notin> set (base64url s)"
  using b64_digit_no_dot by (fastforce simp: base64url_def)

lemma b64_value_digit: "n < 64 \<Longrightarrow> b64_value (b64_digit n) = Some n"
  unfolding b64_digit_def b64_value_def Let_def
  by auto

lemma b64_digit_not_eq: "b64_digit n \<noteq> CHR ''=''"
proof
  assume "b64_digit n = CHR ''=''"
  then have "(of_char (b64_digit n) :: nat) = of_char CHR ''=''" by simp
  then show False unfolding b64_digit_def by (auto split: if_splits)
qed

lemma enc_groups_bound: "\<forall>b \<in> set bs. b < 256 \<Longrightarrow> \<forall>g \<in> set (enc_groups bs). g < 64"
  by (induction bs rule: enc_groups.induct) auto

lemma dec_enc_groups: "\<forall>b \<in> set bs. b < 256 \<Longrightarrow> dec_groups (enc_groups bs) = bs"
  by (induction bs rule: enc_groups.induct) auto

lemma map_filter_digits:
  "\<forall>g \<in> set gs. g < 64 \<Longrightarrow> List.map_filter b64_value (map b64_digit gs) = gs"
  by (induction gs) (auto simp: List.map_filter_simps b64_value_digit)

lemma base64url_roundtrip: "base64url_decode (base64url s) = s"
proof -
  let ?bs = "map of_char s :: nat list"
  have b: "\<forall>b \<in> set ?bs. b < 256" by auto
  have tw: "takeWhile (\<lambda>c. c \<noteq> CHR ''='') (base64url s) = base64url s"
    by (auto simp: base64url_def b64_digit_not_eq)
  show ?thesis
    unfolding base64url_decode_def tw
    by (simp add: base64url_def map_filter_digits [OF enc_groups_bound [OF b]]
        dec_enc_groups [OF b] comp_def)
qed

lemma base64url_inj: "base64url a = base64url b \<longleftrightarrow> a = b"
  by (metis base64url_roundtrip)

lemma length_to_hex: "length (to_hex s) = 2 * length s"
  by (induction s) auto

subsection \<open>Splitting a token\<close>

lemma split_on_plain: "d \<notin> set s \<Longrightarrow> split_on d s = [s]"
  by (induction s) auto

lemma split_on_append:
  "d \<notin> set a \<Longrightarrow> split_on d (a @ d # b) = a # split_on d b"
  by (induction a) auto

lemma split_three:
  "d \<notin> set a \<Longrightarrow> d \<notin> set b \<Longrightarrow> d \<notin> set c \<Longrightarrow> split_on d (a @ d # b @ d # c) = [a, b, c]"
  by (simp add: split_on_append split_on_plain)

lemma split_encode:
  "split_on CHR ''.'' (encode R secret payload) =
     [base64url (json_stringify R jwt_header),
      base64url (json_stringify R payload),
      hmac_digest R secret (base64url (json_stringify R jwt_header) @ ''.'' @
                             base64url (json_stringify R payload))]"
proof -
  have "encode R secret payload =
      base64url (json_stringify R jwt_header) @ CHR ''.'' #
      base64url (json_stringify R payload) @ CHR ''.'' #
      hmac_digest R secret (base64url (json_stringify R jwt_header) @ ''.'' @
                             base64url (json_stringify R payload))"
    by (simp add: encode_def Let_def)
  moreover have "CHR ''.'' \<notin> set (hmac_digest R secret x)" for x
    by (simp add: hmac_digest_def base64url_no_dot)
  ultimately show ?thesis
    by (simp only: split_three [OF base64url_no_dot base64url_no_dot] simp_thms)
qed

text \<open>
  What \<^verbatim>\<open>decode\<close> makes of a token that \<^verbatim>\<open>encode\<close> produced, under any secret: the
  format check passes, the signature check compares the two keyed hashes, and the
  payload is what the JSON round trip gives.
\<close>

lemma decode_encode:
  "decode R secret' (encode R secret payload) =
     (if hmac_sha256 R secret (base64url (json_stringify R jwt_header) @ ''.'' @
                               base64url (json_stringify R payload))
         \<noteq> hmac_sha256 R secret' (base64url (json_stringify R jwt_header) @ ''.'' @
                               base64url (json_stringify R payload))
      then Inl InvalidSignature
      else (case json_parse R (json_stringify R payload) of
              None \<Rightarrow> Inl ParseError
            | Some p \<Rightarrow> Inr p))"
  unfolding decode_def split_encode list.case Let_def
  by (simp only: hmac_digest_def base64url_inj base64url_roundtrip)

lemma decode_garbage: "decode R secret ''garbage'' = Inl InvalidFormat"
  by (simp add: decode_def)

subsection \<open>The keyed hash\<close>

lemma xor_byte_involution:
  "p < 256 \<Longrightarrow> char_of (((of_char c :: nat) XOR p) mod 256 XOR p) = c"
proof -
  assume p: "p < 256"
  have "((of_char c :: nat) XOR p) mod 256 = take_bit 8 ((of_char c :: nat) XOR p)"
    by (simp add: take_bit_eq_mod)
  also have "\<dots> = take_bit 8 (of_char c :: nat) XOR take_bit 8 p"
    by (simp add: take_bit_xor)
  also have "take_bit 8 (of_char c :: nat) = of_char c"
    by (simp add: take_bit_eq_mod)
  also have "take_bit 8 p = p" using p by (simp add: take_bit_eq_mod)
  finally have "((of_char c :: nat) XOR p) mod 256 XOR p = of_char c"
    by (simp add: xor.assoc)
  then show ?thesis by simp
qed

lemma xor_pad_involution: "p < 256 \<Longrightarrow> xor_pad p (xor_pad p s) = s"
  by (induction s) (simp_all add: xor_pad_def xor_byte_involution)

lemma xor_pad_inj: "p < 256 \<Longrightarrow> xor_pad p a = xor_pad p b \<Longrightarrow> a = b"
  by (metis xor_pad_involution)

lemma length_xor_pad: "length (xor_pad p s) = length s"
  by (simp add: xor_pad_def)



text \<open>Filling with zero bytes tells apart the keys that do not end in a zero byte.\<close>

lemma zero_padding_unique:
  assumes "a @ replicate (n - length a) z = b @ replicate (n - length b) z"
    and "length a \<le> n" and "length b \<le> n"
    and "a = [] \<or> last a \<noteq> z" and "b = [] \<or> last b \<noteq> z"
  shows "a = b"
proof -
  have one: "x = y" if eq: "x @ replicate (n - length x) z = y @ replicate (n - length y) z"
    and le: "length x \<le> length y" and y: "y = [] \<or> last y \<noteq> z" and yn: "length y \<le> n"
    for x y :: "'a list"
  proof -
    define k where "k = length y - length x"
    have m: "min k (n - length x) = k"
      unfolding k_def using le yn by arith
    from eq have "take (length y) (x @ replicate (n - length x) z) = y" by simp
    then have y_eq: "x @ replicate k z = y"
      using le by (simp add: m k_def [symmetric])
    show ?thesis
    proof (cases k)
      case 0
      with y_eq show ?thesis by simp
    next
      case (Suc j)
      then have "last (x @ replicate k z) = z" "x @ replicate k z \<noteq> []" by simp_all
      then have "last y = z" "y \<noteq> []" unfolding y_eq by simp_all
      with y show ?thesis by blast
    qed
  qed
  show ?thesis
  proof (cases "length a \<le> length b")
    case True
    show ?thesis by (rule one [OF assms(1) True assms(5) assms(3)])
  next
    case False
    then have le: "length b \<le> length a" by simp
    have "b = a" by (rule one [OF assms(1) [symmetric] le assms(4) assms(2)])
    then show ?thesis by simp
  qed
qed

lemma key_block_short: "length key \<le> 64 \<Longrightarrow> key_block R key = key @ replicate (64 - length key) (CHR 0x00)"
  by (simp add: key_block_def)

lemma length_key_block_short: "length key \<le> 64 \<Longrightarrow> length (key_block R key) = 64"
  by (simp add: key_block_short)

text \<open>
  Two keys of at most a block that fill different blocks hand different messages to the
  outer hash, so their digests of the same data differ unless the hash function
  collides on these two messages.
\<close>

lemma hmac_message_tells_blocks_apart:
  assumes a: "length a \<le> 64" and b: "length b \<le> 64"
    and eq: "hmac_message R a data = hmac_message R b data"
  shows "key_block R a = key_block R b"
proof -
  from eq have "xor_pad 0x5c (key_block R a) @ sha256 R (xor_pad 0x36 (key_block R a) @ data) =
                xor_pad 0x5c (key_block R b) @ sha256 R (xor_pad 0x36 (key_block R b) @ data)"
    unfolding hmac_message_def .
  moreover have "length (xor_pad 0x5c (key_block R a)) = length (xor_pad 0x5c (key_block R b))"
    using a b by (simp add: length_xor_pad length_key_block_short)
  ultimately have "xor_pad 0x5c (key_block R a) = xor_pad 0x5c (key_block R b)"
    by simp
  then show ?thesis by (rule xor_pad_inj [rotated]) simp
qed

lemma hmac_message_tells_secrets_apart:
  assumes "length a \<le> 64" and "length b \<le> 64"
    and "a = [] \<or> last a \<noteq> CHR 0x00" and "b = [] \<or> last b \<noteq> CHR 0x00"
    and "a \<noteq> b"
  shows "hmac_message R a data \<noteq> hmac_message R b data"
proof
  assume "hmac_message R a data = hmac_message R b data"
  with assms(1,2) have "key_block R a = key_block R b" by (rule hmac_message_tells_blocks_apart)
  with assms(1,2) have "a @ replicate (64 - length a) (CHR 0x00) = b @ replicate (64 - length b) (CHR 0x00)"
    by (simp add: key_block_short)
  then have "a = b" using assms(1-4) by (rule zero_padding_unique)
  with assms(5) show False by contradiction
qed

lemma hmac_tells_secrets_apart:
  assumes "sha256 R (hmac_message R a data) = sha256 R (hmac_message R b data)
             \<longrightarrow> hmac_message R a data = hmac_message R b data"
    and "length a \<le> 64" and "length b \<le> 64"
    and "a = [] \<or> last a \<noteq> CHR 0x00" and "b = [] \<or> last b \<noteq> CHR 0x00"
    and "a \<noteq> b"
  shows "hmac_sha256 R a data \<noteq> hmac_sha256 R b data"
  using assms(1) hmac_message_tells_secrets_apart [OF assms(2-6), of R data]
  unfolding hmac_sha256_def by blast

subsection \<open>Query parameters\<close>

lemma map_of_params_set:
  "map_of (params_set k v ps) k' = (if k' = k then Some v else map_of ps k')"
proof (induction ps)
  case Nil
  then show ?case by simp
next
  case (Cons p ps)
  have "map_of (filter (\<lambda>q. fst q \<noteq> k) qs) k' = (if k' = k then None else map_of qs k')" for qs
    by (induction qs) auto
  with Cons show ?case by (cases p) auto
qed

lemma searchParams_get_set:
  "searchParams_get (searchParams_set k v u) k' = (if k' = k then Some v else searchParams_get u k')"
  by (simp add: searchParams_get_def searchParams_set_def map_of_params_set)

lemma searchParams_set_base:
  "href_base (searchParams_set k v u) = href_base u" "hash (searchParams_set k v u) = hash u"
  by (simp_all add: searchParams_set_def)

subsection \<open>The examples' documents\<close>


lemma test_expiring_survives:
  "json_parse test_runtime (json_stringify test_runtime expired_document) = Some expired_document"
  by (simp add: test_runtime_def test_documents_def plain_document_def expired_document_def)


lemma test_decode_expiring:
  "decode test_runtime ''k'' (encode test_runtime ''k'' expired_document) = Inr expired_document"
  by (simp only: decode_encode test_expiring_survives simp_thms if_False option.case)

lemma test_flagged_survives:
  "json_parse test_runtime (json_stringify test_runtime flagged_document) = Some flagged_document"
  by (simp add: test_runtime_def test_documents_def plain_document_def expired_document_def
      flagged_document_def)

lemma test_decode_flagged:
  "decode test_runtime ''k'' (encode test_runtime ''k'' flagged_document) = Inr flagged_document"
  by (simp only: decode_encode test_flagged_survives simp_thms if_False option.case)

lemma test_unconvertible_survives:
  "json_parse test_runtime (json_stringify test_runtime unconvertible_document)
     = Some unconvertible_document"
  by (simp add: test_runtime_def test_documents_def plain_document_def expired_document_def
      flagged_document_def unconvertible_document_def)

lemma test_decode_unconvertible:
  "decode test_runtime ''k'' (encode test_runtime ''k'' unconvertible_document)
     = Inr unconvertible_document"
  by (simp only: decode_encode test_unconvertible_survives simp_thms if_False option.case)

section \<open>The token codec\<close>





section \<open>The authentication middleware\<close>

lemma exp_elapsed_number:
  "exp_elapsed R now (JNum n) \<longleftrightarrow> n \<noteq> 0 \<and> 1000 * n < now"
  by (simp add: exp_elapsed_def number_of_def)

lemma exp_elapsed_iff:
  "exp_elapsed R now e \<longleftrightarrow> truthy e \<and> (\<exists>n. number_of R e = Some n \<and> 1000 * n < now)"
  by (auto simp: exp_elapsed_def split: option.splits)

lemma number_of_simps:
  "number_of R (JNum n) = Some n"
  "number_of R (JBool True) = Some 1"
  "number_of R (JStr s) = to_number R (JStr s)"
  by (simp_all add: number_of_def)



lemma bearer_rows:
  assumes "OAUTH_ENABLED cfg" and "authorization hdrs = Some (''Bearer '' @ token)"
  shows "authenticate R cfg now hdrs =
     (case decode R (OAUTH_SECRET_KEY cfg) token of
        Inl err \<Rightarrow> Denied (Json 401 (error_body ''Invalid token''))
      | Inr payload \<Rightarrow>
          (case member_of payload ''exp'' of
             None \<Rightarrow> Denied (Json 401 (error_body ''Invalid token''))
           | Some e \<Rightarrow>
               if truthy e \<and> to_string_throws e
               then Denied (Json 401 (error_body ''Invalid token''))
               else if exp_elapsed R now e
               then Denied (Json 401 (error_body ''Token expired''))
               else Next (Some payload) (Some ''oauth'')))"
  using assms by (simp add: authenticate_def bearer_token_def)

lemma authenticate_bearer_rows: "OAUTH_ENABLED cfg \<and> authorization hdrs = Some (''Bearer '' @ token) \<longrightarrow>
      (\<forall>err. decode R (OAUTH_SECRET_KEY cfg) token = Inl err \<longrightarrow>
         authenticate R cfg now hdrs = Denied (Json 401 (error_body ''Invalid token''))) \<and>
      (\<forall>payload. decode R (OAUTH_SECRET_KEY cfg) token = Inr payload \<and>
           member_of payload ''exp'' = None \<longrightarrow>
         authenticate R cfg now hdrs = Denied (Json 401 (error_body ''Invalid token''))) \<and>
      (\<forall>payload e. decode R (OAUTH_SECRET_KEY cfg) token = Inr payload \<and>
           member_of payload ''exp'' = Some e \<and>
           truthy e \<and> to_string_throws e \<longrightarrow>
         authenticate R cfg now hdrs = Denied (Json 401 (error_body ''Invalid token''))) \<and>
      (\<forall>payload e n. decode R (OAUTH_SECRET_KEY cfg) token = Inr payload \<and>
           member_of payload ''exp'' = Some e \<and>
           truthy e \<and> \<not> to_string_throws e \<and> number_of R e = Some n \<and> 1000 * n < now \<longrightarrow>
         authenticate R cfg now hdrs = Denied (Json 401 (error_body ''Token expired''))) \<and>
      (\<forall>payload e. decode R (OAUTH_SECRET_KEY cfg) token = Inr payload \<and>
           member_of payload ''exp'' = Some e \<and>
           (\<not> truthy e \<or>
            \<not> to_string_throws e \<and>
              (number_of R e = None \<or> (\<exists>n. number_of R e = Some n \<and> now \<le> 1000 * n))) \<longrightarrow>
         authenticate R cfg now hdrs = Next (Some payload) (Some ''oauth''))"
proof (intro impI)
  assume prem: "OAUTH_ENABLED cfg \<and> authorization hdrs = Some (''Bearer '' @ token)"
  note rows = bearer_rows [OF prem [THEN conjunct1] prem [THEN conjunct2], of R now]
  show "(\<forall>err. decode R (OAUTH_SECRET_KEY cfg) token = Inl err \<longrightarrow>
         authenticate R cfg now hdrs = Denied (Json 401 (error_body ''Invalid token''))) \<and>
      (\<forall>payload. decode R (OAUTH_SECRET_KEY cfg) token = Inr payload \<and>
           member_of payload ''exp'' = None \<longrightarrow>
         authenticate R cfg now hdrs = Denied (Json 401 (error_body ''Invalid token''))) \<and>
      (\<forall>payload e. decode R (OAUTH_SECRET_KEY cfg) token = Inr payload \<and>
           member_of payload ''exp'' = Some e \<and>
           truthy e \<and> to_string_throws e \<longrightarrow>
         authenticate R cfg now hdrs = Denied (Json 401 (error_body ''Invalid token''))) \<and>
      (\<forall>payload e n. decode R (OAUTH_SECRET_KEY cfg) token = Inr payload \<and>
           member_of payload ''exp'' = Some e \<and>
           truthy e \<and> \<not> to_string_throws e \<and> number_of R e = Some n \<and> 1000 * n < now \<longrightarrow>
         authenticate R cfg now hdrs = Denied (Json 401 (error_body ''Token expired''))) \<and>
      (\<forall>payload e. decode R (OAUTH_SECRET_KEY cfg) token = Inr payload \<and>
           member_of payload ''exp'' = Some e \<and>
           (\<not> truthy e \<or>
            \<not> to_string_throws e \<and>
              (number_of R e = None \<or> (\<exists>n. number_of R e = Some n \<and> now \<le> 1000 * n))) \<longrightarrow>
         authenticate R cfg now hdrs = Next (Some payload) (Some ''oauth''))"
  proof (intro conjI allI impI)
    fix err assume "decode R (OAUTH_SECRET_KEY cfg) token = Inl err"
    then show "authenticate R cfg now hdrs = Denied (Json 401 (error_body ''Invalid token''))"
      by (simp add: rows)
  next
    fix payload
    assume "decode R (OAUTH_SECRET_KEY cfg) token = Inr payload \<and> member_of payload ''exp'' = None"
    then show "authenticate R cfg now hdrs = Denied (Json 401 (error_body ''Invalid token''))"
      by (simp add: rows)
  next
    fix payload e
    assume "decode R (OAUTH_SECRET_KEY cfg) token = Inr payload \<and>
           member_of payload ''exp'' = Some e \<and> truthy e \<and> to_string_throws e"
    then show "authenticate R cfg now hdrs = Denied (Json 401 (error_body ''Invalid token''))"
      by (simp add: rows)
  next
    fix payload e n
    assume "decode R (OAUTH_SECRET_KEY cfg) token = Inr payload \<and>
           member_of payload ''exp'' = Some e \<and>
           truthy e \<and> \<not> to_string_throws e \<and> number_of R e = Some n \<and> 1000 * n < now"
    then show "authenticate R cfg now hdrs = Denied (Json 401 (error_body ''Token expired''))"
      by (simp add: rows exp_elapsed_iff)
  next
    fix payload e
    assume h: "decode R (OAUTH_SECRET_KEY cfg) token = Inr payload \<and>
           member_of payload ''exp'' = Some e \<and>
           (\<not> truthy e \<or>
            \<not> to_string_throws e \<and>
              (number_of R e = None \<or> (\<exists>n. number_of R e = Some n \<and> now \<le> 1000 * n)))"
    then have "\<not> (truthy e \<and> to_string_throws e)" "\<not> exp_elapsed R now e"
      by (auto simp: exp_elapsed_iff)
    with h show "authenticate R cfg now hdrs = Next (Some payload) (Some ''oauth'')"
      by (simp add: rows)
  qed
qed

text \<open>
  Claim C4, as stated, fails: the bearer branch is guarded by \<^verbatim>\<open>OAUTH_ENABLED\<close>. With
  OAuth and the API key both disabled, a request whose bearer token has the wrong format
  is not answered 401; it proceeds unauthenticated. With OAuth enabled the same request
  is answered 401, and the body carries the message \<^verbatim>\<open>Invalid token\<close>, not a code
  \<^verbatim>\<open>invalid_token\<close>.
\<close>

theorem authenticate_ignores_bearer_when_oauth_disabled:
  "decode test_runtime (OAUTH_SECRET_KEY open_cfg) ''garbage'' = Inl InvalidFormat \<and>
   authenticate test_runtime open_cfg 0 (bearer ''garbage'') = Next None None \<and>
   authenticate test_runtime example_cfg 0 (bearer ''garbage'')
     = Denied (Json 401 (JObj [(''error'', JStr ''Invalid token'')]))"
  by (simp add: decode_def authenticate_def bearer_token_def open_cfg_def example_cfg_def
      bearer_def error_body_def)

text \<open>
  Claim C4, amended. The middleware decides in this order. (1) When OAuth is enabled
  and the \<^verbatim>\<open>Authorization\<close> header starts with \<^verbatim>\<open>Bearer \<close>, the token is decoded: a
  token that fails to decode, or whose payload is \<^verbatim>\<open>null\<close>, or whose \<^verbatim>\<open>exp\<close> is an
  object or array that cannot be converted to a number, is answered 401 with the
  message \<^verbatim>\<open>Invalid token\<close>; a payload whose \<^verbatim>\<open>exp\<close> is truthy and, converted to a
  number as the comparison converts it (a number is itself, \<^verbatim>\<open>true\<close> is 1, a string is
  the number it denotes), has \<^verbatim>\<open>exp * 1000 < now\<close> is answered 401 with
  \<^verbatim>\<open>Token expired\<close>; otherwise, that is, when \<^verbatim>\<open>exp\<close> is missing or falsy, converts to
  no number, or has \<^verbatim>\<open>now \<le> exp * 1000\<close>, the payload is attached and the request
  proceeds with the method \<^verbatim>\<open>oauth\<close>. (2) Else, when
  \<^verbatim>\<open>AUTH_ENABLED\<close> is set and a non-empty \<^verbatim>\<open>X-API-Key\<close> header is present, a key other
  than \<^verbatim>\<open>API_KEY\<close> is answered 401 with \<^verbatim>\<open>Invalid API key\<close> and the right key proceeds
  with the method \<^verbatim>\<open>api_key\<close>. (3) Else, when neither is enabled, the request proceeds
  unauthenticated. (4) Else the answer is 401 with \<^verbatim>\<open>Authentication required\<close>.
\<close>

theorem authenticate_table:
  "(OAUTH_ENABLED cfg \<and> authorization hdrs = Some (''Bearer '' @ token) \<longrightarrow>
      (\<forall>err. decode R (OAUTH_SECRET_KEY cfg) token = Inl err \<longrightarrow>
         authenticate R cfg now hdrs = Denied (Json 401 (error_body ''Invalid token''))) \<and>
      (\<forall>payload. decode R (OAUTH_SECRET_KEY cfg) token = Inr payload \<and>
           member_of payload ''exp'' = None \<longrightarrow>
         authenticate R cfg now hdrs = Denied (Json 401 (error_body ''Invalid token''))) \<and>
      (\<forall>payload e. decode R (OAUTH_SECRET_KEY cfg) token = Inr payload \<and>
           member_of payload ''exp'' = Some e \<and>
           truthy e \<and> to_string_throws e \<longrightarrow>
         authenticate R cfg now hdrs = Denied (Json 401 (error_body ''Invalid token''))) \<and>
      (\<forall>payload e n. decode R (OAUTH_SECRET_KEY cfg) token = Inr payload \<and>
           member_of payload ''exp'' = Some e \<and>
           truthy e \<and> \<not> to_string_throws e \<and> number_of R e = Some n \<and> 1000 * n < now \<longrightarrow>
         authenticate R cfg now hdrs = Denied (Json 401 (error_body ''Token expired''))) \<and>
      (\<forall>payload e. decode R (OAUTH_SECRET_KEY cfg) token = Inr payload \<and>
           member_of payload ''exp'' = Some e \<and>
           (\<not> truthy e \<or>
            \<not> to_string_throws e \<and>
              (number_of R e = None \<or> (\<exists>n. number_of R e = Some n \<and> now \<le> 1000 * n))) \<longrightarrow>
         authenticate R cfg now hdrs = Next (Some payload) (Some ''oauth'')) \<and>
      number_of R (JBool True) = Some 1 \<and>
      (\<forall>n. number_of R (JNum n) = Some n) \<and>
      (\<forall>s. number_of R (JStr s) = to_number R (JStr s)) \<and>
      (\<forall>e. to_string_throws e \<longrightarrow> (\<exists>obj. e = JObj obj) \<or> (\<exists>xs. e = JArr xs))) \<and>
   (\<not> (OAUTH_ENABLED cfg \<and> bearer_token (authorization hdrs) \<noteq> None) \<longrightarrow>
      (\<forall>k. AUTH_ENABLED cfg \<and> x_api_key hdrs = Some k \<and> k \<noteq> [] \<longrightarrow>
         authenticate R cfg now hdrs =
           (if API_KEY cfg = Some k then Next None (Some ''api_key'')
            else Denied (Json 401 (error_body ''Invalid API key'')))) \<and>
      (\<not> (AUTH_ENABLED cfg \<and> x_api_key hdrs \<noteq> None \<and> x_api_key hdrs \<noteq> Some []) \<longrightarrow>
         authenticate R cfg now hdrs =
           (if \<not> AUTH_ENABLED cfg \<and> \<not> OAUTH_ENABLED cfg then Next None None
            else Denied (Json 401 (error_body ''Authentication required'')))))"
proof -
  have kinds: "to_string_throws e \<longrightarrow> (\<exists>obj. e = JObj obj) \<or> (\<exists>xs. e = JArr xs)" for e
    by (cases e) simp_all
  note bearer = authenticate_bearer_rows [of cfg hdrs token R now]
  have rest: "\<not> (OAUTH_ENABLED cfg \<and> bearer_token (authorization hdrs) \<noteq> None) \<longrightarrow>
      (\<forall>k. AUTH_ENABLED cfg \<and> x_api_key hdrs = Some k \<and> k \<noteq> [] \<longrightarrow>
         authenticate R cfg now hdrs =
           (if API_KEY cfg = Some k then Next None (Some ''api_key'')
            else Denied (Json 401 (error_body ''Invalid API key'')))) \<and>
      (\<not> (AUTH_ENABLED cfg \<and> x_api_key hdrs \<noteq> None \<and> x_api_key hdrs \<noteq> Some []) \<longrightarrow>
         authenticate R cfg now hdrs =
           (if \<not> AUTH_ENABLED cfg \<and> \<not> OAUTH_ENABLED cfg then Next None None
            else Denied (Json 401 (error_body ''Authentication required''))))"
    by (auto simp: authenticate_def bearer_token_def)
  have nums: "number_of R (JBool True) = Some 1 \<and>
      (\<forall>n. number_of R (JNum n) = Some n) \<and>
      (\<forall>s. number_of R (JStr s) = to_number R (JStr s)) \<and>
      (\<forall>e. to_string_throws e \<longrightarrow> (\<exists>obj. e = JObj obj) \<or> (\<exists>xs. e = JArr xs))"
    by (intro conjI allI kinds) (simp_all add: number_of_simps)
  show ?thesis
  proof (intro conjI)
    show "OAUTH_ENABLED cfg \<and> authorization hdrs = Some (''Bearer '' @ token) \<longrightarrow>
      (\<forall>err. decode R (OAUTH_SECRET_KEY cfg) token = Inl err \<longrightarrow>
         authenticate R cfg now hdrs = Denied (Json 401 (error_body ''Invalid token''))) \<and>
      (\<forall>payload. decode R (OAUTH_SECRET_KEY cfg) token = Inr payload \<and>
           member_of payload ''exp'' = None \<longrightarrow>
         authenticate R cfg now hdrs = Denied (Json 401 (error_body ''Invalid token''))) \<and>
      (\<forall>payload e. decode R (OAUTH_SECRET_KEY cfg) token = Inr payload \<and>
           member_of payload ''exp'' = Some e \<and>
           truthy e \<and> to_string_throws e \<longrightarrow>
         authenticate R cfg now hdrs = Denied (Json 401 (error_body ''Invalid token''))) \<and>
      (\<forall>payload e n. decode R (OAUTH_SECRET_KEY cfg) token = Inr payload \<and>
           member_of payload ''exp'' = Some e \<and>
           truthy e \<and> \<not> to_string_throws e \<and> number_of R e = Some n \<and> 1000 * n < now \<longrightarrow>
         authenticate R cfg now hdrs = Denied (Json 401 (error_body ''Token expired''))) \<and>
      (\<forall>payload e. decode R (OAUTH_SECRET_KEY cfg) token = Inr payload \<and>
           member_of payload ''exp'' = Some e \<and>
           (\<not> truthy e \<or>
            \<not> to_string_throws e \<and>
              (number_of R e = None \<or> (\<exists>n. number_of R e = Some n \<and> now \<le> 1000 * n))) \<longrightarrow>
         authenticate R cfg now hdrs = Next (Some payload) (Some ''oauth'')) \<and>
      number_of R (JBool True) = Some 1 \<and>
      (\<forall>n. number_of R (JNum n) = Some n) \<and>
      (\<forall>s. number_of R (JStr s) = to_number R (JStr s)) \<and>
      (\<forall>e. to_string_throws e \<longrightarrow> (\<exists>obj. e = JObj obj) \<or> (\<exists>xs. e = JArr xs))"
    proof
      assume prem: "OAUTH_ENABLED cfg \<and> authorization hdrs = Some (''Bearer '' @ token)"
      from bearer [rule_format, OF prem] nums
      show "(\<forall>err. decode R (OAUTH_SECRET_KEY cfg) token = Inl err \<longrightarrow>
         authenticate R cfg now hdrs = Denied (Json 401 (error_body ''Invalid token''))) \<and>
      (\<forall>payload. decode R (OAUTH_SECRET_KEY cfg) token = Inr payload \<and>
           member_of payload ''exp'' = None \<longrightarrow>
         authenticate R cfg now hdrs = Denied (Json 401 (error_body ''Invalid token''))) \<and>
      (\<forall>payload e. decode R (OAUTH_SECRET_KEY cfg) token = Inr payload \<and>
           member_of payload ''exp'' = Some e \<and>
           truthy e \<and> to_string_throws e \<longrightarrow>
         authenticate R cfg now hdrs = Denied (Json 401 (error_body ''Invalid token''))) \<and>
      (\<forall>payload e n. decode R (OAUTH_SECRET_KEY cfg) token = Inr payload \<and>
           member_of payload ''exp'' = Some e \<and>
           truthy e \<and> \<not> to_string_throws e \<and> number_of R e = Some n \<and> 1000 * n < now \<longrightarrow>
         authenticate R cfg now hdrs = Denied (Json 401 (error_body ''Token expired''))) \<and>
      (\<forall>payload e. decode R (OAUTH_SECRET_KEY cfg) token = Inr payload \<and>
           member_of payload ''exp'' = Some e \<and>
           (\<not> truthy e \<or>
            \<not> to_string_throws e \<and>
              (number_of R e = None \<or> (\<exists>n. number_of R e = Some n \<and> now \<le> 1000 * n))) \<longrightarrow>
         authenticate R cfg now hdrs = Next (Some payload) (Some ''oauth'')) \<and>
      number_of R (JBool True) = Some 1 \<and>
      (\<forall>n. number_of R (JNum n) = Some n) \<and>
      (\<forall>s. number_of R (JStr s) = to_number R (JStr s)) \<and>
      (\<forall>e. to_string_throws e \<longrightarrow> (\<exists>obj. e = JObj obj) \<or> (\<exists>xs. e = JArr xs))"
        by (elim conjE, intro conjI) assumption+
    qed
    show "\<not> (OAUTH_ENABLED cfg \<and> bearer_token (authorization hdrs) \<noteq> None) \<longrightarrow>
      (\<forall>k. AUTH_ENABLED cfg \<and> x_api_key hdrs = Some k \<and> k \<noteq> [] \<longrightarrow>
         authenticate R cfg now hdrs =
           (if API_KEY cfg = Some k then Next None (Some ''api_key'')
            else Denied (Json 401 (error_body ''Invalid API key'')))) \<and>
      (\<not> (AUTH_ENABLED cfg \<and> x_api_key hdrs \<noteq> None \<and> x_api_key hdrs \<noteq> Some []) \<longrightarrow>
         authenticate R cfg now hdrs =
           (if \<not> AUTH_ENABLED cfg \<and> \<not> OAUTH_ENABLED cfg then Next None None
            else Denied (Json 401 (error_body ''Authentication required''))))"
      by (rule rest)
  qed
qed

text \<open>One request for each row of the table.\<close>

theorem authenticate_table_witness:
  "authenticate test_runtime example_cfg 0 (bearer ''garbage'')
     = Denied (Json 401 (error_body ''Invalid token'')) \<and>
   authenticate test_runtime example_cfg 1800000000000 (bearer (encode test_runtime ''k'' expired_document))
     = Denied (Json 401 (error_body ''Token expired'')) \<and>
   authenticate test_runtime example_cfg 1600000000000 (bearer (encode test_runtime ''k'' expired_document))
     = Next (Some expired_document) (Some ''oauth'') \<and>
   authenticate test_runtime example_cfg 1001 (bearer (encode test_runtime ''k'' flagged_document))
     = Denied (Json 401 (error_body ''Token expired'')) \<and>
   authenticate test_runtime example_cfg 0 (bearer (encode test_runtime ''k'' unconvertible_document))
     = Denied (Json 401 (error_body ''Invalid token'')) \<and>
   authenticate test_runtime key_cfg 0 (api_key_header ''key'') = Next None (Some ''api_key'') \<and>
   authenticate test_runtime key_cfg 0 (api_key_header ''bad'')
     = Denied (Json 401 (error_body ''Invalid API key'')) \<and>
   authenticate test_runtime open_cfg 0 no_headers = Next None None \<and>
   authenticate test_runtime example_cfg 0 no_headers
     = Denied (Json 401 (error_body ''Authentication required''))"
proof -
  let ?tok = "encode test_runtime ''k'' expired_document"
  have on: "OAUTH_ENABLED example_cfg" and key: "OAUTH_SECRET_KEY example_cfg = ''k''"
    by (simp_all add: example_cfg_def)
  have hdr: "authorization (bearer t) = Some (''Bearer '' @ t)" for t
    by (simp add: bearer_def)
  have exp: "member_of expired_document ''exp'' = Some (JNum 1700000000)"
    by (simp add: expired_document_def get_prop_def)
  have a: "authenticate test_runtime example_cfg 0 (bearer ''garbage'')
             = Denied (Json 401 (error_body ''Invalid token''))"
    using authenticate_table [of example_cfg "bearer ''garbage''" "''garbage''" test_runtime 0,
        THEN conjunct1, THEN mp, OF conjI [OF on hdr], THEN conjunct1]
      decode_garbage by (simp add: key)
  have num: "truthy (JNum 1700000000)" "number_of test_runtime (JNum 1700000000) = Some 1700000000"
    "\<not> to_string_throws (JNum 1700000000)"
    by (simp_all add: number_of_def)
  have b: "authenticate test_runtime example_cfg 1800000000000 (bearer ?tok)
             = Denied (Json 401 (error_body ''Token expired''))"
    using authenticate_table [of example_cfg "bearer ?tok" ?tok test_runtime 1800000000000,
        THEN conjunct1, THEN mp, OF conjI [OF on hdr],
        THEN conjunct2, THEN conjunct2, THEN conjunct2, THEN conjunct1]
      test_decode_expiring exp num by (simp add: key)
  have c: "authenticate test_runtime example_cfg 1600000000000 (bearer ?tok)
             = Next (Some expired_document) (Some ''oauth'')"
    using authenticate_table [of example_cfg "bearer ?tok" ?tok test_runtime 1600000000000,
        THEN conjunct1, THEN mp, OF conjI [OF on hdr],
        THEN conjunct2, THEN conjunct2, THEN conjunct2, THEN conjunct2, THEN conjunct1]
      test_decode_expiring exp num by (simp add: key)
  let ?flag = "encode test_runtime ''k'' flagged_document"
  have flag: "member_of flagged_document ''exp'' = Some (JBool True)"
    "truthy (JBool True)" "number_of test_runtime (JBool True) = Some 1"
    "\<not> to_string_throws (JBool True)"
    by (simp_all add: flagged_document_def get_prop_def number_of_def)
  have h: "authenticate test_runtime example_cfg 1001 (bearer ?flag)
             = Denied (Json 401 (error_body ''Token expired''))"
    using authenticate_table [of example_cfg "bearer ?flag" ?flag test_runtime 1001,
        THEN conjunct1, THEN mp, OF conjI [OF on hdr],
        THEN conjunct2, THEN conjunct2, THEN conjunct2, THEN conjunct1]
      test_decode_flagged flag by (simp add: key)
  let ?odd = "encode test_runtime ''k'' unconvertible_document"
  have odd: "member_of unconvertible_document ''exp'' = Some (JObj [(''toString'', JNum 1)])"
    "truthy (JObj [(''toString'', JNum 1)])" "to_string_throws (JObj [(''toString'', JNum 1)])"
    by (simp_all add: unconvertible_document_def get_prop_def)
  have i: "authenticate test_runtime example_cfg 0 (bearer ?odd)
             = Denied (Json 401 (error_body ''Invalid token''))"
    using authenticate_table [of example_cfg "bearer ?odd" ?odd test_runtime 0,
        THEN conjunct1, THEN mp, OF conjI [OF on hdr],
        THEN conjunct2, THEN conjunct2, THEN conjunct1]
      test_decode_unconvertible odd by (simp add: key)
  have kc: "\<not> OAUTH_ENABLED key_cfg" "AUTH_ENABLED key_cfg" "API_KEY key_cfg = Some ''key''"
    by (simp_all add: key_cfg_def example_cfg_def)
  have d: "authenticate test_runtime key_cfg 0 (api_key_header ''key'') = Next None (Some ''api_key'')"
    using authenticate_table [of key_cfg "api_key_header ''key''" "[]" test_runtime 0, THEN conjunct2] kc
    by (simp add: api_key_header_def)
  have e: "authenticate test_runtime key_cfg 0 (api_key_header ''bad'')
             = Denied (Json 401 (error_body ''Invalid API key''))"
    using authenticate_table [of key_cfg "api_key_header ''bad''" "[]" test_runtime 0, THEN conjunct2] kc
    by (simp add: api_key_header_def)
  have oc: "\<not> OAUTH_ENABLED open_cfg" "\<not> AUTH_ENABLED open_cfg"
    by (simp_all add: open_cfg_def example_cfg_def)
  have f: "authenticate test_runtime open_cfg 0 no_headers = Next None None"
    using authenticate_table [of open_cfg no_headers "[]" test_runtime 0, THEN conjunct2] oc
    by (simp add: no_headers_def)
  have "\<not> AUTH_ENABLED example_cfg" by (simp add: example_cfg_def)
  then have g: "authenticate test_runtime example_cfg 0 no_headers
             = Denied (Json 401 (error_body ''Authentication required''))"
    using authenticate_table [of example_cfg no_headers "[]" test_runtime 0, THEN conjunct2] on
    by (simp add: no_headers_def bearer_token_def)
  from a b c h i d e f g show ?thesis by simp
qed

section \<open>Registration\<close>

text \<open>
  Claim C8, as stated, fails. Registration does not check that a \<^verbatim>\<open>client_name\<close> is
  there: a request that names redirect URIs and no \<^verbatim>\<open>client_name\<close> is answered 200 with
  a record whose \<^verbatim>\<open>client_name\<close> is \<^verbatim>\<open>undefined\<close>. And a request that carries a
  \<^verbatim>\<open>client_name\<close> is not always answered with the record: the name
  \<^verbatim>\<open>{"toString": 1}\<close> makes the log line throw and is answered 400.
\<close>

theorem register_without_client_name:
  "get_prop nameless_request ''client_name'' = Undefined \<and>
   fst (oauth_register test_runtime 0 ''01234567'' ''0123456789abcdef'' empty_server
          (Some nameless_request)) =
     Json 200 (JObj
       [(''client_id'', JStr (''mcp_client_'' @ to_hex ''01234567'')),
        (''client_secret'', JStr (to_hex ''0123456789abcdef'')),
        (''client_name'', Undefined),
        (''redirect_uris'', JArr [JStr ''http://localhost:3000/callback'']),
        (''grant_types'', JArr [JStr ''authorization_code'']),
        (''response_types'', JArr [JStr ''code'']),
        (''scope'', JStr ''read write''),
        (''token_endpoint_auth_method'', JStr ''client_secret_basic''),
        (''created_at'', JStr (toISOString test_runtime 0))]) \<and>
   fst (oauth_register test_runtime 0 ''01234567'' ''0123456789abcdef'' empty_server
          (Some unprintable_name_request)) =
     Json 400 (JObj [(''error'', JStr ''Invalid registration request'')])"
  by (simp add: oauth_register_def Let_def get_prop_def dflt_def nameless_request_def
      unprintable_name_request_def error_body_def)

text \<open>
  Claim C8, amended. Registration validates nothing, the presence of \<^verbatim>\<open>client_name\<close>
  included. For every request with a body a client record is made and stored under
  its identifier: the identifier is \<^verbatim>\<open>mcp_client_\<close> followed by the hexadecimal digits of
  the eight random bytes, the secret is the hexadecimal digits of the sixteen random
  bytes (two digits for each byte), and the name is whatever the request gave. The
  answer is 200 with the record when the name can be converted to a string for the
  log line, as a missing name and a string can; when it cannot, and when the request
  has no body, the answer is 400 with the message \<^verbatim>\<open>Invalid registration request\<close>.
\<close>

theorem register_endpoint:
  assumes "clientId = ''mcp_client_'' @ to_hex random8"
    and "clientSecret = to_hex random16"
    and "result = oauth_register R now random8 random16 srv request_body"
  shows "(request_body = None \<longrightarrow>
            result = (Json 400 (error_body ''Invalid registration request''), srv)) \<and>
         (\<forall>body. request_body = Some body \<longrightarrow>
            (\<exists>client.
               snd result = srv\<lparr>oauthClients := (oauthClients srv)(clientId \<mapsto> client)\<rparr> \<and>
               get_prop client ''client_id'' = JStr clientId \<and>
               get_prop client ''client_secret'' = JStr clientSecret \<and>
               get_prop client ''client_name'' = get_prop body ''client_name'' \<and>
               (\<not> to_string_throws (get_prop body ''client_name'') \<longrightarrow>
                  fst result = Json 200 (JObj client)) \<and>
               (to_string_throws (get_prop body ''client_name'') \<longrightarrow>
                  fst result = Json 400 (error_body ''Invalid registration request'')))) \<and>
         take 11 clientId = ''mcp_client_'' \<and>
         length clientId = 11 + 2 * length random8 \<and>
         length clientSecret = 2 * length random16 \<and>
         \<not> to_string_throws Undefined \<and>
         (\<forall>name. \<not> to_string_throws (JStr name))"
proof (cases request_body)
  case None
  then show ?thesis
    unfolding assms by (simp add: oauth_register_def length_to_hex)
next
  case (Some body)
  let ?client =
    "[(''client_id'', JStr (''mcp_client_'' @ to_hex random8)),
      (''client_secret'', JStr (to_hex random16)),
      (''client_name'', get_prop body ''client_name''),
      (''redirect_uris'', dflt (get_prop body ''redirect_uris'') (JArr [])),
      (''grant_types'', dflt (get_prop body ''grant_types'') (JArr [JStr ''authorization_code''])),
      (''response_types'', dflt (get_prop body ''response_types'') (JArr [JStr ''code''])),
      (''scope'', dflt (get_prop body ''scope'') (JStr ''read write'')),
      (''token_endpoint_auth_method'', JStr ''client_secret_basic''),
      (''created_at'', JStr (toISOString R now))]"
  have stored: "snd (oauth_register R now random8 random16 srv (Some body)) =
      srv\<lparr>oauthClients := (oauthClients srv)(''mcp_client_'' @ to_hex random8 \<mapsto> ?client)\<rparr>"
    by (simp add: oauth_register_def Let_def)
  have ok: "fst (oauth_register R now random8 random16 srv (Some body)) = Json 200 (JObj ?client)"
    if "\<not> to_string_throws (get_prop body ''client_name'')"
    using that by (simp add: oauth_register_def Let_def)
  have bad: "fst (oauth_register R now random8 random16 srv (Some body)) =
      Json 400 (error_body ''Invalid registration request'')"
    if "to_string_throws (get_prop body ''client_name'')"
    using that by (simp add: oauth_register_def Let_def)
  have props: "get_prop ?client ''client_id'' = JStr (''mcp_client_'' @ to_hex random8)"
    "get_prop ?client ''client_secret'' = JStr (to_hex random16)"
    "get_prop ?client ''client_name'' = get_prop body ''client_name''"
    by (simp_all add: get_prop_def)
  have "\<exists>client.
          snd (oauth_register R now random8 random16 srv (Some body)) =
            srv\<lparr>oauthClients := (oauthClients srv)(''mcp_client_'' @ to_hex random8 \<mapsto> client)\<rparr> \<and>
          get_prop client ''client_id'' = JStr (''mcp_client_'' @ to_hex random8) \<and>
          get_prop client ''client_secret'' = JStr (to_hex random16) \<and>
          get_prop client ''client_name'' = get_prop body ''client_name'' \<and>
          (\<not> to_string_throws (get_prop body ''client_name'') \<longrightarrow>
             fst (oauth_register R now random8 random16 srv (Some body)) = Json 200 (JObj client)) \<and>
          (to_string_throws (get_prop body ''client_name'') \<longrightarrow>
             fst (oauth_register R now random8 random16 srv (Some body)) =
               Json 400 (error_body ''Invalid registration request''))"
    using stored ok bad props by (intro exI [of _ ?client]) blast
  then show ?thesis
    unfolding assms Some by (simp add: length_to_hex)
qed

text \<open>
  The registration of the client \<^verbatim>\<open>Test\<close>, whose secret has 32 digits; a request
  without a body; and the name that cannot be logged.
\<close>

theorem register_endpoint_witness:
  "fst (oauth_register test_runtime 0 ''01234567'' ''0123456789abcdef'' empty_server
          (Some register_request)) =
     Json 200 (JObj
       [(''client_id'', JStr (''mcp_client_'' @ to_hex ''01234567'')),
        (''client_secret'', JStr (to_hex ''0123456789abcdef'')),
        (''client_name'', JStr ''Test''),
        (''redirect_uris'', JArr [JStr ''http://localhost:3000/callback'']),
        (''grant_types'', JArr [JStr ''authorization_code'']),
        (''response_types'', JArr [JStr ''code'']),
        (''scope'', JStr ''read write''),
        (''token_endpoint_auth_method'', JStr ''client_secret_basic''),
        (''created_at'', JStr (toISOString test_runtime 0))]) \<and>
   length (to_hex ''0123456789abcdef'') = 32 \<and>
   oauth_register test_runtime 0 ''01234567'' ''0123456789abcdef'' empty_server None =
     (Json 400 (error_body ''Invalid registration request''), empty_server) \<and>
   fst (oauth_register test_runtime 0 ''01234567'' ''0123456789abcdef'' empty_server
          (Some unprintable_name_request)) =
     Json 400 (error_body ''Invalid registration request'')"
proof -
  let ?run = "oauth_register test_runtime 0 ''01234567'' ''0123456789abcdef'' empty_server"
  note inst = register_endpoint [of _ "''01234567''" _ "''0123456789abcdef''" _ test_runtime 0
      empty_server, OF refl refl refl]
  from inst [of "Some register_request"]
  have "length (to_hex ''0123456789abcdef'') = 2 * length ''0123456789abcdef''"
    by blast
  then have a: "length (to_hex ''0123456789abcdef'') = 32" by simp
  from inst [of None]
  have b: "?run None = (Json 400 (error_body ''Invalid registration request''), empty_server)"
    by blast
  have "to_string_throws (get_prop unprintable_name_request ''client_name'')"
    by (simp add: unprintable_name_request_def get_prop_def)
  with inst [of "Some unprintable_name_request"]
  have c: "fst (?run (Some unprintable_name_request)) =
             Json 400 (error_body ''Invalid registration request'')"
    by blast
  have d: "fst (?run (Some register_request)) =
     Json 200 (JObj
       [(''client_id'', JStr (''mcp_client_'' @ to_hex ''01234567'')),
        (''client_secret'', JStr (to_hex ''0123456789abcdef'')),
        (''client_name'', JStr ''Test''),
        (''redirect_uris'', JArr [JStr ''http://localhost:3000/callback'']),
        (''grant_types'', JArr [JStr ''authorization_code'']),
        (''response_types'', JArr [JStr ''code'']),
        (''scope'', JStr ''read write''),
        (''token_endpoint_auth_method'', JStr ''client_secret_basic''),
        (''created_at'', JStr (toISOString test_runtime 0))])"
    by (simp add: oauth_register_def Let_def get_prop_def dflt_def register_request_def)
  from a b c d show ?thesis by simp
qed

section \<open>Authorization\<close>

text \<open>
  Claim C5, as stated, fails: the handler never looks at the registered
  \<^verbatim>\<open>redirect_uris\<close>. The client below registered one callback; a request naming another
  URI is given a code, stored with that URI, and is redirected there.
\<close>

theorem authorize_accepts_unregistered_redirect_uri:
  "get_prop example_client ''redirect_uris'' = JArr [JStr ''http://localhost:3000/callback''] \<and>
   oauthClients example_server ''mcp_client_00'' = Some example_client \<and>
   oauth_authorize test_runtime example_cfg 0 ''0123456789abcdef'' example_server foreign_redirect_query =
     (Redirect \<lparr>href_base = ''https://elsewhere.example/collect'',
                searchParams = [(''code'', to_hex ''0123456789abcdef'')],
                hash = []\<rparr>,
      example_server\<lparr>authorizationCodes := (authorizationCodes example_server)
        (to_hex ''0123456789abcdef'' \<mapsto>
           \<lparr>grant_client_id = JStr ''mcp_client_00'',
            grant_redirect_uri = JStr ''https://elsewhere.example/collect'',
            grant_scope = JStr ''read'',
            expires_at = 600000\<rparr>)\<rparr>)"
  by (simp add: oauth_authorize_def Let_def foreign_redirect_query_def get_prop_def map_get_def
      example_server_def example_client_def example_cfg_def test_runtime_def test_urls_def
      searchParams_set_def)

text \<open>
  Claim C5, amended. The supplied \<^verbatim>\<open>redirect_uri\<close> is not compared with the client's
  registered URIs. Every authorization request with \<^verbatim>\<open>response_type=code\<close> from a
  registered client stores a code together with the supplied \<^verbatim>\<open>redirect_uri\<close>, and when
  that value parses as a URL the answer is a redirect to it that carries the code.
\<close>

theorem authorize_redirect_unchecked:
  assumes "get_prop query ''response_type'' = JStr ''code''"
    and "map_get (oauthClients srv) (get_prop query ''client_id'') = Some client"
    and "redirect_uri = get_prop query ''redirect_uri''"
  shows "authorizationCodes (snd (oauth_authorize R cfg now random16 srv query)) (to_hex random16) =
           Some \<lparr>grant_client_id = get_prop query ''client_id'',
                 grant_redirect_uri = redirect_uri,
                 grant_scope = get_prop query ''scope'',
                 expires_at = now + OAUTH_AUTHORIZATION_CODE_EXPIRE_MINUTES cfg * 60 * 1000\<rparr> \<and>
         (\<forall>u. url_parse R redirect_uri = Some u \<longrightarrow>
            (\<exists>target. fst (oauth_authorize R cfg now random16 srv query) = Redirect target \<and>
               href_base target = href_base u \<and> hash target = hash u \<and>
               searchParams_get target ''code'' = Some (to_hex random16)))"
  using assms
  by (auto simp: oauth_authorize_def Let_def searchParams_get_set searchParams_set_base
      split: option.splits)

text \<open>The request for the foreign URI again, through the theorem.\<close>

theorem authorize_redirect_unchecked_witness:
  "authorizationCodes
     (snd (oauth_authorize test_runtime example_cfg 0 ''0123456789abcdef'' example_server
            foreign_redirect_query)) (to_hex ''0123456789abcdef'') =
     Some \<lparr>grant_client_id = JStr ''mcp_client_00'',
           grant_redirect_uri = JStr ''https://elsewhere.example/collect'',
           grant_scope = JStr ''read'',
           expires_at = 600000\<rparr> \<and>
   location (fst (oauth_authorize test_runtime example_cfg 0 ''0123456789abcdef'' example_server
            foreign_redirect_query)) = ''https://elsewhere.example/collect''"
proof -
  let ?result = "oauth_authorize test_runtime example_cfg 0 ''0123456789abcdef'' example_server
                   foreign_redirect_query"
  have rt: "get_prop foreign_redirect_query ''response_type'' = JStr ''code''"
    by (simp add: foreign_redirect_query_def get_prop_def)
  have cl: "map_get (oauthClients example_server) (get_prop foreign_redirect_query ''client_id'')
              = Some example_client"
    by (simp add: foreign_redirect_query_def get_prop_def map_get_def example_server_def)
  have uri: "get_prop foreign_redirect_query ''redirect_uri'' = JStr ''https://elsewhere.example/collect''"
    by (simp add: foreign_redirect_query_def get_prop_def)
  have parsed: "url_parse test_runtime (JStr ''https://elsewhere.example/collect'') =
                  Some \<lparr>href_base = ''https://elsewhere.example/collect'', searchParams = [], hash = []\<rparr>"
    by (simp add: test_runtime_def test_urls_def)
  note inst = authorize_redirect_unchecked [OF rt cl refl, of test_runtime example_cfg 0 "''0123456789abcdef''"]
  from inst have "authorizationCodes (snd ?result) (to_hex ''0123456789abcdef'') =
     Some \<lparr>grant_client_id = get_prop foreign_redirect_query ''client_id'',
           grant_redirect_uri = get_prop foreign_redirect_query ''redirect_uri'',
           grant_scope = get_prop foreign_redirect_query ''scope'',
           expires_at = 0 + OAUTH_AUTHORIZATION_CODE_EXPIRE_MINUTES example_cfg * 60 * 1000\<rparr>"
    by blast
  then have stored: "authorizationCodes (snd ?result) (to_hex ''0123456789abcdef'') =
     Some \<lparr>grant_client_id = JStr ''mcp_client_00'',
           grant_redirect_uri = JStr ''https://elsewhere.example/collect'',
           grant_scope = JStr ''read'',
           expires_at = 600000\<rparr>"
    by (simp add: foreign_redirect_query_def get_prop_def example_cfg_def)
  from inst parsed uri obtain target where "fst ?result = Redirect target"
    and "href_base target = ''https://elsewhere.example/collect''"
    by auto
  then have "location (fst ?result) = ''https://elsewhere.example/collect''" by simp
  with stored show ?thesis by simp
qed

text \<open>
  Claim C7, as stated, fails in its last part. A registered client that sends no
  \<^verbatim>\<open>redirect_uri\<close> is not redirected: \<^verbatim>\<open>new URL\<close> throws and the answer is 400 with the
  message \<^verbatim>\<open>Invalid authorization request\<close>. And a \<^verbatim>\<open>state\<close> that was supplied empty is
  not carried by the redirect.
\<close>

theorem authorize_without_redirect_uri:
  "oauthClients example_server ''mcp_client_00'' = Some example_client \<and>
   fst (oauth_authorize test_runtime example_cfg 0 ''0123456789abcdef'' example_server no_redirect_query)
     = Json 400 (error_body ''Invalid authorization request'') \<and>
   fst (oauth_authorize test_runtime example_cfg 0 ''0123456789abcdef'' example_server empty_state_query)
     = Redirect \<lparr>href_base = ''http://localhost:3000/callback'',
                 searchParams = [(''code'', to_hex ''0123456789abcdef'')],
                 hash = []\<rparr>"
  by (simp add: oauth_authorize_def Let_def no_redirect_query_def empty_state_query_def get_prop_def
      map_get_def example_server_def example_cfg_def test_runtime_def test_urls_def
      searchParams_set_def)

text \<open>
  Claim C7, amended. If \<^verbatim>\<open>response_type\<close> is not \<^verbatim>\<open>code\<close> the answer is 400
  \<^verbatim>\<open>unsupported_response_type\<close>; else if \<^verbatim>\<open>client_id\<close> is not registered the answer is 400
  \<^verbatim>\<open>invalid_client\<close>; in both cases nothing is stored. Otherwise the code drawn is stored
  with the request's client, redirect URI and scope and with the expiry
  \<^verbatim>\<open>now + minutes * 60 * 1000\<close> (ten minutes by default). Then, if \<^verbatim>\<open>redirect_uri\<close> does
  not parse as a URL the answer is 400 \<^verbatim>\<open>Invalid authorization request\<close>; if it does, the
  answer is a redirect to it whose query carries the code, carries the state exactly
  when the supplied state is truthy (not missing, not empty), and is otherwise the
  query of \<^verbatim>\<open>redirect_uri\<close>.
\<close>

theorem authorize_endpoint:
  assumes "response_type = get_prop query ''response_type''"
    and "client_id = get_prop query ''client_id''"
    and "redirect_uri = get_prop query ''redirect_uri''"
    and "state = get_prop query ''state''"
    and "authCode = to_hex random16"
    and "result = oauth_authorize R cfg now random16 srv query"
  shows "(response_type \<noteq> JStr ''code'' \<longrightarrow>
            result = (Json 400 (error_body ''unsupported_response_type''), srv)) \<and>
         (response_type = JStr ''code'' \<and> map_get (oauthClients srv) client_id = None \<longrightarrow>
            result = (Json 400 (error_body ''invalid_client''), srv)) \<and>
         (\<forall>client. response_type = JStr ''code'' \<and>
                   map_get (oauthClients srv) client_id = Some client \<longrightarrow>
            snd result = srv\<lparr>authorizationCodes := (authorizationCodes srv)(authCode \<mapsto>
                           \<lparr>grant_client_id = client_id,
                            grant_redirect_uri = redirect_uri,
                            grant_scope = get_prop query ''scope'',
                            expires_at = now + OAUTH_AUTHORIZATION_CODE_EXPIRE_MINUTES cfg * 60 * 1000\<rparr>)\<rparr> \<and>
            (OAUTH_AUTHORIZATION_CODE_EXPIRE_MINUTES cfg = 10 \<longrightarrow>
               (\<exists>g. authorizationCodes (snd result) authCode = Some g \<and> expires_at g = now + 600000)) \<and>
            (url_parse R redirect_uri = None \<longrightarrow>
               fst result = Json 400 (error_body ''Invalid authorization request'')) \<and>
            (\<forall>u. url_parse R redirect_uri = Some u \<longrightarrow>
               (\<exists>target. fst result = Redirect target \<and>
                  href_base target = href_base u \<and> hash target = hash u \<and>
                  searchParams_get target ''code'' = Some authCode \<and>
                  searchParams_get target ''state'' =
                    (if truthy state then Some (string_of R state) else searchParams_get u ''state'') \<and>
                  (\<forall>k. k \<noteq> ''code'' \<and> k \<noteq> ''state'' \<longrightarrow>
                     searchParams_get target k = searchParams_get u k))))"
  unfolding assms
  by (auto simp: oauth_authorize_def Let_def searchParams_get_set searchParams_set_base
      split: option.splits)

text \<open>One request for each outcome.\<close>

theorem authorize_endpoint_witness:
  "oauth_authorize test_runtime example_cfg 0 ''0123456789abcdef'' example_server token_query
     = (Json 400 (error_body ''unsupported_response_type''), example_server) \<and>
   oauth_authorize test_runtime example_cfg 0 ''0123456789abcdef'' example_server stranger_query
     = (Json 400 (error_body ''invalid_client''), example_server) \<and>
   fst (oauth_authorize test_runtime example_cfg 0 ''0123456789abcdef'' example_server no_redirect_query)
     = Json 400 (error_body ''Invalid authorization request'') \<and>
   authorizationCodes
     (snd (oauth_authorize test_runtime example_cfg 0 ''0123456789abcdef'' example_server authorize_query))
     (to_hex ''0123456789abcdef'')
     = Some \<lparr>grant_client_id = JStr ''mcp_client_00'',
              grant_redirect_uri = JStr ''http://localhost:3000/callback'',
              grant_scope = JStr ''read write'',
              expires_at = 600000\<rparr> \<and>
   location (fst (oauth_authorize test_runtime example_cfg 0 ''0123456789abcdef'' example_server
                    authorize_query)) = ''http://localhost:3000/callback'' \<and>
   location_param (fst (oauth_authorize test_runtime example_cfg 0 ''0123456789abcdef'' example_server
                    authorize_query)) ''code'' = Some (to_hex ''0123456789abcdef'') \<and>
   location_param (fst (oauth_authorize test_runtime example_cfg 0 ''0123456789abcdef'' example_server
                    authorize_query)) ''state'' = Some ''test-state''"
proof -
  let ?run = "oauth_authorize test_runtime example_cfg 0 ''0123456789abcdef'' example_server"
  have known: "map_get (oauthClients example_server) (JStr ''mcp_client_00'') = Some example_client"
    and unknown: "map_get (oauthClients example_server) (JStr ''mcp_client_99'') = None"
    by (simp_all add: map_get_def example_server_def)
  have ttl: "OAUTH_AUTHORIZATION_CODE_EXPIRE_MINUTES example_cfg = 10"
    by (simp add: example_cfg_def)
  have tq: "get_prop token_query ''response_type'' = JStr ''token''"
    by (simp add: token_query_def get_prop_def)
  have sq: "get_prop stranger_query ''response_type'' = JStr ''code''"
    "get_prop stranger_query ''client_id'' = JStr ''mcp_client_99''"
    by (simp_all add: stranger_query_def get_prop_def)
  have nq: "get_prop no_redirect_query ''response_type'' = JStr ''code''"
    "get_prop no_redirect_query ''client_id'' = JStr ''mcp_client_00''"
    "get_prop no_redirect_query ''redirect_uri'' = Undefined"
    by (simp_all add: no_redirect_query_def get_prop_def)
  have aq: "get_prop authorize_query ''response_type'' = JStr ''code''"
    "get_prop authorize_query ''client_id'' = JStr ''mcp_client_00''"
    "get_prop authorize_query ''redirect_uri'' = JStr ''http://localhost:3000/callback''"
    "get_prop authorize_query ''scope'' = JStr ''read write''"
    by (simp_all add: authorize_query_def get_prop_def)
  have no_url: "url_parse test_runtime Undefined = None"
    by (simp add: test_runtime_def)
  have url: "url_parse test_runtime (JStr ''http://localhost:3000/callback'') = Some callback_url"
    by (simp add: test_runtime_def test_urls_def callback_url_def)
  have a: "?run token_query = (Json 400 (error_body ''unsupported_response_type''), example_server)"
    using authorize_endpoint [OF refl refl refl refl refl refl, of token_query test_runtime example_cfg 0
        "''0123456789abcdef''" example_server]
    by (simp add: tq)
  have b: "?run stranger_query = (Json 400 (error_body ''invalid_client''), example_server)"
    using authorize_endpoint [OF refl refl refl refl refl refl, of stranger_query test_runtime example_cfg 0
        "''0123456789abcdef''" example_server]
    by (simp add: sq unknown)
  have c: "fst (?run no_redirect_query) = Json 400 (error_body ''Invalid authorization request'')"
    using authorize_endpoint [OF refl refl refl refl refl refl, of no_redirect_query test_runtime example_cfg 0
        "''0123456789abcdef''" example_server]
    by (simp add: nq known no_url)
  note inst = authorize_endpoint [OF refl refl refl refl refl refl, of authorize_query test_runtime
      example_cfg 0 "''0123456789abcdef''" example_server]
  from inst have d: "authorizationCodes (snd (?run authorize_query)) (to_hex ''0123456789abcdef'')
     = Some \<lparr>grant_client_id = JStr ''mcp_client_00'',
              grant_redirect_uri = JStr ''http://localhost:3000/callback'',
              grant_scope = JStr ''read write'',
              expires_at = 600000\<rparr>"
    by (simp add: aq known ttl)
  have st: "get_prop authorize_query ''state'' = JStr ''test-state''"
    by (simp add: authorize_query_def get_prop_def)
  from inst obtain target where "fst (?run authorize_query) = Redirect target"
    and "href_base target = href_base callback_url"
    and "searchParams_get target ''code'' = Some (to_hex ''0123456789abcdef'')"
    and "searchParams_get target ''state'' = Some ''test-state''"
    by (auto simp add: aq st known url string_of_def)
  then have e: "location (fst (?run authorize_query)) = ''http://localhost:3000/callback''"
    and f: "location_param (fst (?run authorize_query)) ''code'' = Some (to_hex ''0123456789abcdef'')"
    and g: "location_param (fst (?run authorize_query)) ''state'' = Some ''test-state''"
    by (simp_all add: callback_url_def)
  from a b c d e f g show ?thesis by simp
qed

section \<open>Token exchange\<close>

text \<open>
  Claim C3, as stated, fails in two places. A request without a parsed body, whose
  \<^verbatim>\<open>grant_type\<close> is therefore not \<^verbatim>\<open>authorization_code\<close>, is answered 400 with the message
  \<^verbatim>\<open>Invalid token request\<close>, not \<^verbatim>\<open>unsupported_grant_type\<close>. And \<^verbatim>\<open>exp\<close> is computed from a
  clock reading of its own: when the clock passes from 1999 to 2000 between the two
  readings, \<^verbatim>\<open>iat\<close> is 1 and \<^verbatim>\<open>exp\<close> is 3602 for a lifetime of 3600 seconds.
\<close>

theorem token_endpoint_exceptions:
  "oauth_token test_runtime example_cfg (still_clock 1000) example_server None
     = (Json 400 (JObj [(''error'', JStr ''Invalid token request'')]), example_server) \<and>
   fst (oauth_token test_runtime example_cfg ticking_clock example_server (Some token_request))
     = Json 200 (JObj
         [(''access_token'', JStr (encode test_runtime ''k'' (JObj
             [(''client_id'', JStr ''mcp_client_00''),
              (''scope'', JStr ''read''),
              (''iat'', JNum 1),
              (''exp'', JNum 3602),
              (''sub'', JStr ''mcp_client_00'')]))),
          (''token_type'', JStr ''Bearer''),
          (''expires_in'', JNum 3600),
          (''scope'', JStr ''read'')])"
  by (simp add: oauth_token_def Let_def token_request_def example_server_def example_cfg_def
      get_prop_def map_get_def example_grant_def example_client_def ticking_clock_def
      error_body_def)

text \<open>
  Claim C3, amended. A request without a parsed body is answered 400 with the message
  \<^verbatim>\<open>Invalid token request\<close>. For a request with a body the token endpoint checks in this
  order: a \<^verbatim>\<open>grant_type\<close> other than \<^verbatim>\<open>authorization_code\<close> is answered 400
  \<^verbatim>\<open>unsupported_grant_type\<close>; then a code that is absent or expired is answered 400
  \<^verbatim>\<open>invalid_grant\<close>; then, the code being valid, a \<^verbatim>\<open>client_id\<close> that is not registered
  or a \<^verbatim>\<open>client_secret\<close> other than the registered one is answered 400
  \<^verbatim>\<open>invalid_client\<close>. Otherwise the answer is 200 with the token type \<^verbatim>\<open>Bearer\<close>,
  \<^verbatim>\<open>expires_in\<close> equal to the lifetime in seconds (3600 for 60 minutes), the scope stored
  with the code, and an access token of three dot-separated parts that encodes the
  claims \<^verbatim>\<open>client_id\<close>, \<^verbatim>\<open>scope\<close>, \<^verbatim>\<open>sub = client_id\<close>, \<^verbatim>\<open>iat\<close>, the second of one clock
  reading, and \<^verbatim>\<open>exp\<close>, the second of the next clock reading plus the lifetime; so
  \<^verbatim>\<open>exp = iat + lifetime\<close> when both readings fall in the same second. Decoding the token
  returns these claims when they survive the JSON round trip.
\<close>

theorem token_endpoint:
  assumes "grant_type = get_prop body ''grant_type''"
    and "code = get_prop body ''code''"
    and "client_id = get_prop body ''client_id''"
    and "client_secret = get_prop body ''client_secret''"
    and "ttl = OAUTH_ACCESS_TOKEN_EXPIRE_MINUTES cfg * 60"
    and "iat = at_iat clock div 1000"
    and "exp = at_exp clock div 1000 + ttl"
  shows "oauth_token R cfg clock srv None = (Json 400 (error_body ''Invalid token request''), srv) \<and>
         (grant_type \<noteq> JStr ''authorization_code'' \<longrightarrow>
            fst (oauth_token R cfg clock srv (Some body))
              = Json 400 (error_body ''unsupported_grant_type'')) \<and>
         (grant_type = JStr ''authorization_code'' \<and>
          (map_get (authorizationCodes srv) code = None \<or>
           (\<exists>g. map_get (authorizationCodes srv) code = Some g \<and> at_check clock > expires_at g)) \<longrightarrow>
            fst (oauth_token R cfg clock srv (Some body)) = Json 400 (error_body ''invalid_grant'')) \<and>
         (\<forall>g. grant_type = JStr ''authorization_code'' \<and>
              map_get (authorizationCodes srv) code = Some g \<and> \<not> at_check clock > expires_at g \<longrightarrow>
            ((map_get (oauthClients srv) client_id = None \<or>
              (\<exists>client. map_get (oauthClients srv) client_id = Some client \<and>
                        get_prop client ''client_secret'' \<noteq> client_secret)) \<longrightarrow>
               fst (oauth_token R cfg clock srv (Some body)) = Json 400 (error_body ''invalid_client'')) \<and>
            ((\<exists>client. map_get (oauthClients srv) client_id = Some client \<and>
                       get_prop client ''client_secret'' = client_secret) \<longrightarrow>
               (\<exists>claims accessToken header payload signature.
                  claims = JObj [(''client_id'', client_id),
                                 (''scope'', grant_scope g),
                                 (''iat'', JNum iat),
                                 (''exp'', JNum exp),
                                 (''sub'', client_id)] \<and>
                  accessToken = encode R (OAUTH_SECRET_KEY cfg) claims \<and>
                  split_on CHR ''.'' accessToken = [header, payload, signature] \<and>
                  (json_parse R (json_stringify R claims) = Some claims \<longrightarrow>
                     decode R (OAUTH_SECRET_KEY cfg) accessToken = Inr claims) \<and>
                  fst (oauth_token R cfg clock srv (Some body)) =
                    Json 200 (JObj [(''access_token'', JStr accessToken),
                                    (''token_type'', JStr ''Bearer''),
                                    (''expires_in'', JNum ttl),
                                    (''scope'', grant_scope g)])))) \<and>
         (at_iat clock div 1000 = at_exp clock div 1000 \<longrightarrow> exp = iat + ttl) \<and>
         (at_iat clock \<le> at_exp clock \<longrightarrow> iat + ttl \<le> exp) \<and>
         (OAUTH_ACCESS_TOKEN_EXPIRE_MINUTES cfg = 60 \<longrightarrow> ttl = 3600)"
proof -
  have arith: "(at_iat clock div 1000 = at_exp clock div 1000 \<longrightarrow> exp = iat + ttl) \<and>
               (at_iat clock \<le> at_exp clock \<longrightarrow> iat + ttl \<le> exp) \<and>
               (OAUTH_ACCESS_TOKEN_EXPIRE_MINUTES cfg = 60 \<longrightarrow> ttl = 3600)"
    unfolding assms by (auto intro: zdiv_mono1)
  have main: "oauth_token R cfg clock srv None = (Json 400 (error_body ''Invalid token request''), srv) \<and>
         (grant_type \<noteq> JStr ''authorization_code'' \<longrightarrow>
            fst (oauth_token R cfg clock srv (Some body))
              = Json 400 (error_body ''unsupported_grant_type'')) \<and>
         (grant_type = JStr ''authorization_code'' \<and>
          (map_get (authorizationCodes srv) code = None \<or>
           (\<exists>g. map_get (authorizationCodes srv) code = Some g \<and> at_check clock > expires_at g)) \<longrightarrow>
            fst (oauth_token R cfg clock srv (Some body)) = Json 400 (error_body ''invalid_grant'')) \<and>
         (\<forall>g. grant_type = JStr ''authorization_code'' \<and>
              map_get (authorizationCodes srv) code = Some g \<and> \<not> at_check clock > expires_at g \<longrightarrow>
            ((map_get (oauthClients srv) client_id = None \<or>
              (\<exists>client. map_get (oauthClients srv) client_id = Some client \<and>
                        get_prop client ''client_secret'' \<noteq> client_secret)) \<longrightarrow>
               fst (oauth_token R cfg clock srv (Some body)) = Json 400 (error_body ''invalid_client'')) \<and>
            ((\<exists>client. map_get (oauthClients srv) client_id = Some client \<and>
                       get_prop client ''client_secret'' = client_secret) \<longrightarrow>
               (\<exists>claims accessToken header payload signature.
                  claims = JObj [(''client_id'', client_id),
                                 (''scope'', grant_scope g),
                                 (''iat'', JNum iat),
                                 (''exp'', JNum exp),
                                 (''sub'', client_id)] \<and>
                  accessToken = encode R (OAUTH_SECRET_KEY cfg) claims \<and>
                  split_on CHR ''.'' accessToken = [header, payload, signature] \<and>
                  (json_parse R (json_stringify R claims) = Some claims \<longrightarrow>
                     decode R (OAUTH_SECRET_KEY cfg) accessToken = Inr claims) \<and>
                  fst (oauth_token R cfg clock srv (Some body)) =
                    Json 200 (JObj [(''access_token'', JStr accessToken),
                                    (''token_type'', JStr ''Bearer''),
                                    (''expires_in'', JNum ttl),
                                    (''scope'', grant_scope g)]))))"
    unfolding assms
    by (auto simp: oauth_token_def Let_def split_encode decode_encode)
  from main arith show ?thesis
    by (elim conjE, intro conjI) assumption+
qed

theorem token_endpoint_witness:
  "oauth_token test_runtime example_cfg (still_clock 1000) example_server None
     = (Json 400 (error_body ''Invalid token request''), example_server) \<and>
   fst (oauth_token test_runtime example_cfg (still_clock 1000) example_server (Some password_request))
     = Json 400 (error_body ''unsupported_grant_type'') \<and>
   fst (oauth_token test_runtime example_cfg (still_clock 600001) example_server (Some token_request))
     = Json 400 (error_body ''invalid_grant'') \<and>
   fst (oauth_token test_runtime example_cfg (still_clock 1000) example_server (Some wrong_secret_request))
     = Json 400 (error_body ''invalid_client'') \<and>
   fst (oauth_token test_runtime example_cfg (still_clock 1000) example_server (Some token_request))
     = Json 200 (JObj [(''access_token'', JStr (encode test_runtime ''k'' example_claims)),
                       (''token_type'', JStr ''Bearer''),
                       (''expires_in'', JNum 3600),
                       (''scope'', JStr ''read'')]) \<and>
   length (split_on CHR ''.'' (encode test_runtime ''k'' example_claims)) = 3"
proof -
  have ttl: "(3600::int) = OAUTH_ACCESS_TOKEN_EXPIRE_MINUTES example_cfg * 60"
    and key: "OAUTH_SECRET_KEY example_cfg = ''k''"
    by (simp_all add: example_cfg_def)
  have codes: "map_get (authorizationCodes example_server) (JStr ''c0de'') = Some example_grant"
    and client: "map_get (oauthClients example_server) (JStr ''mcp_client_00'') = Some example_client"
    by (simp_all add: map_get_def example_server_def)
  have grant: "expires_at example_grant = 600000" "grant_scope example_grant = JStr ''read''"
    by (simp_all add: example_grant_def)
  have secret: "get_prop example_client ''client_secret'' = JStr ''5ec2e7''"
    by (simp add: example_client_def get_prop_def)
  have clock: "at_check (still_clock t) = t" "at_iat (still_clock t) = t"
    "at_exp (still_clock t) = t" for t
    by (simp_all add: still_clock_def)
  have pw: "get_prop password_request ''grant_type'' = JStr ''password''"
    by (simp add: password_request_def get_prop_def)
  have tr: "get_prop token_request ''grant_type'' = JStr ''authorization_code''"
    "get_prop token_request ''code'' = JStr ''c0de''"
    "get_prop token_request ''client_id'' = JStr ''mcp_client_00''"
    "get_prop token_request ''client_secret'' = JStr ''5ec2e7''"
    by (simp_all add: token_request_def get_prop_def)
  have wr: "get_prop wrong_secret_request ''grant_type'' = JStr ''authorization_code''"
    "get_prop wrong_secret_request ''code'' = JStr ''c0de''"
    "get_prop wrong_secret_request ''client_id'' = JStr ''mcp_client_00''"
    "get_prop wrong_secret_request ''client_secret'' = JStr ''guess''"
    by (simp_all add: wrong_secret_request_def get_prop_def)
  have z: "oauth_token test_runtime example_cfg (still_clock 1000) example_server None
             = (Json 400 (error_body ''Invalid token request''), example_server)"
    using token_endpoint [OF refl refl refl refl ttl refl refl,
        where body = password_request and R = test_runtime and clock = "still_clock 1000" and srv = example_server]
    by (rule conjunct1)
  have a: "fst (oauth_token test_runtime example_cfg (still_clock 1000) example_server (Some password_request))
             = Json 400 (error_body ''unsupported_grant_type'')"
    using token_endpoint [OF refl refl refl refl ttl refl refl,
        where body = password_request and R = test_runtime and clock = "still_clock 1000" and srv = example_server]
    by (simp add: pw)
  have b: "fst (oauth_token test_runtime example_cfg (still_clock 600001) example_server (Some token_request))
             = Json 400 (error_body ''invalid_grant'')"
    using token_endpoint [OF refl refl refl refl ttl refl refl,
        where body = token_request and R = test_runtime and clock = "still_clock 600001" and srv = example_server]
    by (simp add: tr codes grant clock)
  have c: "fst (oauth_token test_runtime example_cfg (still_clock 1000) example_server (Some wrong_secret_request))
             = Json 400 (error_body ''invalid_client'')"
    using token_endpoint [OF refl refl refl refl ttl refl refl,
        where body = wrong_secret_request and R = test_runtime and clock = "still_clock 1000" and srv = example_server]
    by (simp add: wr codes grant client secret clock)
  have d: "fst (oauth_token test_runtime example_cfg (still_clock 1000) example_server (Some token_request))
             = Json 200 (JObj [(''access_token'', JStr (encode test_runtime ''k'' example_claims)),
                               (''token_type'', JStr ''Bearer''),
                               (''expires_in'', JNum 3600),
                               (''scope'', JStr ''read'')]) \<and>
           length (split_on CHR ''.'' (encode test_runtime ''k'' example_claims)) = 3"
    using token_endpoint [OF refl refl refl refl ttl refl refl,
        where body = token_request and R = test_runtime and clock = "still_clock 1000" and srv = example_server]
    by (auto simp add: tr codes grant client secret key clock example_claims_def)
  from z a b c d show ?thesis by simp
qed

subsection \<open>What the token endpoint does to the code store\<close>

lemma oauth_token_codes:
  "authorizationCodes (snd (oauth_token R cfg clock srv (Some body))) = authorizationCodes srv \<or>
   authorizationCodes (snd (oauth_token R cfg clock srv (Some body))) =
     map_delete (authorizationCodes srv) (get_prop body ''code'')"
  by (simp add: oauth_token_def Let_def split: option.splits)

lemma oauth_token_clients:
  "oauthClients (snd (oauth_token R cfg clock srv request_body)) = oauthClients srv"
  by (simp add: oauth_token_def Let_def split: option.splits)

lemma map_delete_absent: "m c = None \<Longrightarrow> map_delete m k c = None"
  by (simp add: map_delete_def split: jsval.splits)

lemma oauth_token_absent:
  "authorizationCodes srv c = None \<Longrightarrow>
   authorizationCodes (snd (oauth_token R cfg clock srv request_body)) c = None"
proof (cases request_body)
  case None
  assume "authorizationCodes srv c = None"
  with None show ?thesis by (simp add: oauth_token_def)
next
  case (Some body)
  assume "authorizationCodes srv c = None"
  with Some show ?thesis
    using oauth_token_codes [of R cfg clock srv body] by (auto simp: map_delete_absent)
qed

lemma oauth_register_codes:
  "authorizationCodes (snd (oauth_register R now r8 r16 srv request_body)) = authorizationCodes srv"
  by (simp add: oauth_register_def Let_def split: option.splits)

lemma oauth_authorize_absent:
  "authorizationCodes srv c = None \<Longrightarrow> to_hex r16 \<noteq> c \<Longrightarrow>
   authorizationCodes (snd (oauth_authorize R cfg now r16 srv query)) c = None"
  by (simp add: oauth_authorize_def Let_def split: option.splits)

lemma route_absent:
  "authorizationCodes srv c = None \<Longrightarrow> \<not> issues r c \<Longrightarrow>
   authorizationCodes (snd (route R cfg srv r)) c = None"
  by (cases r) (simp_all add: oauth_token_absent oauth_register_codes oauth_authorize_absent)

lemma handle_absent:
  "authorizationCodes srv c = None \<Longrightarrow> \<not> issues r c \<Longrightarrow>
   authorizationCodes (snd (handle R cfg srv r)) c = None"
  by (simp add: handle_def route_absent)

lemma serve_absent:
  "authorizationCodes srv c = None \<Longrightarrow> \<forall>r \<in> set rs. \<not> issues r c \<Longrightarrow>
   authorizationCodes (serve R cfg srv rs) c = None"
  by (induction rs arbitrary: srv) (simp_all add: handle_absent)

lemma oauth_token_unknown_code:
  "get_prop body ''grant_type'' = JStr ''authorization_code'' \<Longrightarrow>
   map_get (authorizationCodes srv) (get_prop body ''code'') = None \<Longrightarrow>
   oauth_token R cfg clock srv (Some body) = (Json 400 (error_body ''invalid_grant''), srv)"
  by (simp add: oauth_token_def)

lemma oauth_token_success_code:
  "oauth_token R cfg clock srv request_body = (Json 200 b, srv') \<Longrightarrow>
   \<exists>body c g. request_body = Some body \<and> get_prop body ''code'' = JStr c \<and>
         authorizationCodes srv c = Some g \<and> \<not> at_check clock > expires_at g \<and>
         authorizationCodes srv' = (authorizationCodes srv)(c := None)"
  by (auto simp: oauth_token_def Let_def map_get_def map_delete_def error_body_def
      split: option.splits if_splits jsval.splits)

lemma oauth_token_expired_code:
  "get_prop body ''grant_type'' = JStr ''authorization_code'' \<Longrightarrow>
   get_prop body ''code'' = JStr c \<Longrightarrow>
   authorizationCodes srv c = Some g \<Longrightarrow> at_check clock > expires_at g \<Longrightarrow>
   oauth_token R cfg clock srv (Some body) =
     (Json 400 (error_body ''invalid_grant''),
      srv\<lparr>authorizationCodes := (authorizationCodes srv)(c := None)\<rparr>)"
  by (simp add: oauth_token_def Let_def map_get_def map_delete_def)

lemma oauth_token_untouched:
  "oauth_token R cfg clock srv request_body = (resp, srv') \<Longrightarrow>
   \<forall>b. resp \<noteq> Json 200 b \<Longrightarrow>
   \<not> (\<exists>body c g. request_body = Some body \<and>
          get_prop body ''grant_type'' = JStr ''authorization_code'' \<and>
          get_prop body ''code'' = JStr c \<and> authorizationCodes srv c = Some g \<and>
          at_check clock > expires_at g) \<Longrightarrow>
   srv' = srv"
  by (auto simp: oauth_token_def Let_def map_get_def
      split: option.splits if_splits jsval.splits)

text \<open>
  Claim C1. An exchange leaves the registry alone and touches the code store in two
  cases only, each time by deleting the entry of the code presented. A successful
  exchange found the code stored and not expired, and deletes its entry; from then
  on, through any later requests that do not issue the same code again, every
  further exchange of it under the grant type \<^verbatim>\<open>authorization_code\<close> is answered 400
  \<^verbatim>\<open>invalid_grant\<close> and changes nothing. An exchange that finds the code expired is
  answered 400 \<^verbatim>\<open>invalid_grant\<close> and deletes its entry too. An exchange that neither
  succeeds nor finds the code expired, one with a wrong secret for instance, leaves
  the whole state as it was.
\<close>

theorem authorization_code_single_use:
  assumes "oauth_token R cfg clock srv request_body = (resp, srv')"
  shows "oauthClients srv' = oauthClients srv \<and>
         ((\<exists>b. resp = Json 200 b) \<longrightarrow>
            (\<exists>body c g. request_body = Some body \<and> get_prop body ''code'' = JStr c \<and>
               authorizationCodes srv c = Some g \<and> \<not> at_check clock > expires_at g \<and>
               authorizationCodes srv' = (authorizationCodes srv)(c := None) \<and>
               (\<forall>rs clock' body'.
                  (\<forall>r \<in> set rs. \<not> issues r c) \<and>
                  get_prop body' ''grant_type'' = JStr ''authorization_code'' \<and>
                  get_prop body' ''code'' = JStr c \<longrightarrow>
                  oauth_token R cfg clock' (serve R cfg srv' rs) (Some body') =
                    (Json 400 (error_body ''invalid_grant''), serve R cfg srv' rs)))) \<and>
         (\<forall>body c g.
            request_body = Some body \<and>
            get_prop body ''grant_type'' = JStr ''authorization_code'' \<and>
            get_prop body ''code'' = JStr c \<and>
            authorizationCodes srv c = Some g \<and> at_check clock > expires_at g \<longrightarrow>
            resp = Json 400 (error_body ''invalid_grant'') \<and>
            srv' = srv\<lparr>authorizationCodes := (authorizationCodes srv)(c := None)\<rparr>) \<and>
         ((\<forall>b. resp \<noteq> Json 200 b) \<and>
          \<not> (\<exists>body c g. request_body = Some body \<and>
                get_prop body ''grant_type'' = JStr ''authorization_code'' \<and>
                get_prop body ''code'' = JStr c \<and> authorizationCodes srv c = Some g \<and>
                at_check clock > expires_at g) \<longrightarrow>
            srv' = srv)"
proof (intro conjI impI allI)
  show "oauthClients srv' = oauthClients srv"
    using oauth_token_clients [of R cfg clock srv request_body] assms by simp
  show "\<exists>body c g. request_body = Some body \<and> get_prop body ''code'' = JStr c \<and>
           authorizationCodes srv c = Some g \<and> \<not> at_check clock > expires_at g \<and>
           authorizationCodes srv' = (authorizationCodes srv)(c := None) \<and>
           (\<forall>rs clock' body'.
              (\<forall>r \<in> set rs. \<not> issues r c) \<and>
              get_prop body' ''grant_type'' = JStr ''authorization_code'' \<and>
              get_prop body' ''code'' = JStr c \<longrightarrow>
              oauth_token R cfg clock' (serve R cfg srv' rs) (Some body') =
                (Json 400 (error_body ''invalid_grant''), serve R cfg srv' rs))"
    if "\<exists>b. resp = Json 200 b"
  proof -
    from that obtain b where "resp = Json 200 b" ..
    with assms obtain body c g where body: "request_body = Some body"
      and c: "get_prop body ''code'' = JStr c"
      and stored: "authorizationCodes srv c = Some g"
      and fresh: "\<not> at_check clock > expires_at g"
      and gone: "authorizationCodes srv' = (authorizationCodes srv)(c := None)"
      using oauth_token_success_code [of R cfg clock srv request_body b srv'] by blast
    from gone have absent: "authorizationCodes srv' c = None" by simp
    have later: "oauth_token R cfg clock' (serve R cfg srv' rs) (Some body') =
            (Json 400 (error_body ''invalid_grant''), serve R cfg srv' rs)"
      if "\<forall>r \<in> set rs. \<not> issues r c"
        and "get_prop body' ''grant_type'' = JStr ''authorization_code''"
        and "get_prop body' ''code'' = JStr c"
      for rs clock' body'
    proof -
      have "authorizationCodes (serve R cfg srv' rs) c = None"
        using absent that(1) by (rule serve_absent)
      then have "map_get (authorizationCodes (serve R cfg srv' rs)) (get_prop body' ''code'') = None"
        using that(3) by (simp add: map_get_def)
      with that(2) show ?thesis by (rule oauth_token_unknown_code)
    qed
    show ?thesis
    proof (intro exI conjI allI impI)
      show "request_body = Some body" by (rule body)
      show "get_prop body ''code'' = JStr c" by (rule c)
      show "authorizationCodes srv c = Some g" by (rule stored)
      show "\<not> at_check clock > expires_at g" by (rule fresh)
      show "authorizationCodes srv' = (authorizationCodes srv)(c := None)" by (rule gone)
      show "oauth_token R cfg clock' (serve R cfg srv' rs) (Some body') =
              (Json 400 (error_body ''invalid_grant''), serve R cfg srv' rs)"
        if "(\<forall>r \<in> set rs. \<not> issues r c) \<and>
            get_prop body' ''grant_type'' = JStr ''authorization_code'' \<and>
            get_prop body' ''code'' = JStr c" for rs clock' body'
        using that by (intro later) simp_all
    qed
  qed
  fix body c g
  assume expired: "request_body = Some body \<and>
            get_prop body ''grant_type'' = JStr ''authorization_code'' \<and>
            get_prop body ''code'' = JStr c \<and>
            authorizationCodes srv c = Some g \<and> at_check clock > expires_at g"
  then have "oauth_token R cfg clock srv (Some body) =
     (Json 400 (error_body ''invalid_grant''),
      srv\<lparr>authorizationCodes := (authorizationCodes srv)(c := None)\<rparr>)"
    by (intro oauth_token_expired_code [of body c srv g clock R cfg]) simp_all
  with assms expired
  show "resp = Json 400 (error_body ''invalid_grant'')"
    and "srv' = srv\<lparr>authorizationCodes := (authorizationCodes srv)(c := None)\<rparr>"
    by simp_all
next
  assume "(\<forall>b. resp \<noteq> Json 200 b) \<and>
          \<not> (\<exists>body c g. request_body = Some body \<and>
                get_prop body ''grant_type'' = JStr ''authorization_code'' \<and>
                get_prop body ''code'' = JStr c \<and> authorizationCodes srv c = Some g \<and>
                at_check clock > expires_at g)"
  then show "srv' = srv"
    using oauth_token_untouched [OF assms] by blast
qed

text \<open>
  The pending code of the example is exchanged, then presented again; an exchange
  after its expiry removes it; an exchange with a wrong secret leaves the state as it
  was.
\<close>

lemma example_first_exchange:
  "\<exists>b. fst (oauth_token test_runtime example_cfg (still_clock 1000) example_server
             (Some token_request)) = Json 200 b"
  by (simp add: oauth_token_def Let_def token_request_def example_server_def example_cfg_def
      get_prop_def map_get_def example_grant_def example_client_def still_clock_def)

lemma example_wrong_secret:
  "fst (oauth_token test_runtime example_cfg (still_clock 1000) example_server
         (Some wrong_secret_request)) = Json 400 (error_body ''invalid_client'')"
  by (simp add: oauth_token_def Let_def wrong_secret_request_def example_server_def example_cfg_def
      get_prop_def map_get_def example_grant_def example_client_def still_clock_def)

theorem authorization_code_single_use_witness:
  "authorizationCodes (snd (oauth_token test_runtime example_cfg (still_clock 1000) example_server
       (Some token_request))) ''c0de'' = None \<and>
   oauth_token test_runtime example_cfg (still_clock 2000)
     (snd (oauth_token test_runtime example_cfg (still_clock 1000) example_server (Some token_request)))
     (Some token_request) =
     (Json 400 (error_body ''invalid_grant''),
      snd (oauth_token test_runtime example_cfg (still_clock 1000) example_server (Some token_request))) \<and>
   oauth_token test_runtime example_cfg (still_clock 600001) example_server (Some token_request) =
     (Json 400 (error_body ''invalid_grant''),
      example_server\<lparr>authorizationCodes := (authorizationCodes example_server)(''c0de'' := None)\<rparr>) \<and>
   snd (oauth_token test_runtime example_cfg (still_clock 1000) example_server
       (Some wrong_secret_request)) = example_server"
proof -
  let ?first = "oauth_token test_runtime example_cfg (still_clock 1000) example_server (Some token_request)"
  let ?late = "oauth_token test_runtime example_cfg (still_clock 600001) example_server (Some token_request)"
  let ?wrong = "oauth_token test_runtime example_cfg (still_clock 1000) example_server (Some wrong_secret_request)"
  have code: "get_prop token_request ''code'' = JStr ''c0de''"
    and gt: "get_prop token_request ''grant_type'' = JStr ''authorization_code''"
    by (simp_all add: token_request_def get_prop_def)
  have wcode: "get_prop wrong_secret_request ''code'' = JStr ''c0de''"
    by (simp add: wrong_secret_request_def get_prop_def)
  have stored: "authorizationCodes example_server ''c0de'' = Some example_grant"
    by (simp add: example_server_def)
  have expiry: "expires_at example_grant = 600000"
    by (simp add: example_grant_def)
  have chk: "at_check (still_clock t) = t" for t
    by (simp add: still_clock_def)
  have "?first = (fst ?first, snd ?first)" by simp
  from authorization_code_single_use [OF this] example_first_exchange
  obtain body c where "Some token_request = Some body" and c: "get_prop body ''code'' = JStr c"
    and gone: "authorizationCodes (snd ?first) = (authorizationCodes example_server)(c := None)"
    and again: "\<And>rs clock' body'. (\<forall>r \<in> set rs. \<not> issues r c) \<and>
                  get_prop body' ''grant_type'' = JStr ''authorization_code'' \<and>
                  get_prop body' ''code'' = JStr c \<Longrightarrow>
                  oauth_token test_runtime example_cfg clock'
                    (serve test_runtime example_cfg (snd ?first) rs) (Some body') =
                    (Json 400 (error_body ''invalid_grant''),
                     serve test_runtime example_cfg (snd ?first) rs)"
    by blast
  then have c0: "c = ''c0de''" using code by simp
  from gone c0 have absent: "authorizationCodes (snd ?first) ''c0de'' = None" by simp
  have second: "oauth_token test_runtime example_cfg (still_clock 2000) (snd ?first) (Some token_request) =
                  (Json 400 (error_body ''invalid_grant''), snd ?first)"
    using again [of "[]" token_request "still_clock 2000"] gt code c0 by simp
  have "?late = (fst ?late, snd ?late)" by simp
  from authorization_code_single_use [OF this, THEN conjunct2, THEN conjunct2, THEN conjunct1,
      THEN spec, THEN spec, THEN spec, of token_request "''c0de''" example_grant]
  have late: "?late = (Json 400 (error_body ''invalid_grant''),
      example_server\<lparr>authorizationCodes := (authorizationCodes example_server)(''c0de'' := None)\<rparr>)"
    by (simp add: gt code stored expiry chk prod_eq_iff)
  have "?wrong = (fst ?wrong, snd ?wrong)" by simp
  from authorization_code_single_use [OF this, THEN conjunct2, THEN conjunct2, THEN conjunct2]
  have wrong: "snd ?wrong = example_server"
    by (simp add: example_wrong_secret error_body_def wcode stored expiry chk)
  from absent second late wrong show ?thesis by simp
qed

section \<open>Client information\<close>

lemma get_prop_rest_without:
  "get_prop (rest_without k obj) k' = (if k' = k then Undefined else get_prop obj k')"
  by (induction obj) (auto simp: get_prop_def rest_without_def)

lemma rest_without_keys: "k \<notin> fst ` set (rest_without k obj)"
  by (auto simp: rest_without_def)

text \<open>
  Claim C6. For an identifier that is not registered the answer is 404. For a
  registered client the answer is the record without its \<^verbatim>\<open>client_secret\<close>: no property
  of that name is in the body, and every other property is as registered.
\<close>

theorem client_info_strips_secret:
  "(oauthClients srv clientId = None \<longrightarrow>
      oauth_clients srv clientId = Json 404 (error_body ''Client not found'')) \<and>
   (\<forall>client. oauthClients srv clientId = Some client \<longrightarrow>
      oauth_clients srv clientId = Json 200 (JObj (rest_without ''client_secret'' client)) \<and>
      ''client_secret'' \<notin> fst ` set (rest_without ''client_secret'' client) \<and>
      get_prop (rest_without ''client_secret'' client) ''client_secret'' = Undefined \<and>
      (\<forall>k. k \<noteq> ''client_secret'' \<longrightarrow>
         get_prop (rest_without ''client_secret'' client) k = get_prop client k))"
  by (simp add: oauth_clients_def rest_without_keys get_prop_rest_without)

text \<open>The registered client of the example, and an identifier nobody registered.\<close>

theorem client_info_strips_secret_witness:
  "oauth_clients example_server ''mcp_client_00'' =
     Json 200 (JObj [(''client_id'', JStr ''mcp_client_00''),
                     (''client_name'', JStr ''Test''),
                     (''redirect_uris'', JArr [JStr ''http://localhost:3000/callback''])]) \<and>
   oauth_clients example_server ''mcp_client_99'' = Json 404 (error_body ''Client not found'')"
proof -
  have known: "oauthClients example_server ''mcp_client_00'' = Some example_client"
    by (simp add: example_server_def)
  have unknown: "oauthClients example_server ''mcp_client_99'' = None"
    by (simp add: example_server_def)
  from client_info_strips_secret [of example_server "''mcp_client_00''"] known
  have "oauth_clients example_server ''mcp_client_00'' =
          Json 200 (JObj (rest_without ''client_secret'' example_client))"
    by auto
  moreover from client_info_strips_secret [of example_server "''mcp_client_99''"] unknown
  have "oauth_clients example_server ''mcp_client_99'' = Json 404 (error_body ''Client not found'')"
    by blast
  ultimately show ?thesis
    by (simp add: rest_without_def example_client_def)
qed

section \<open>Storing a memory\<close>

lemma store_rejects_falsy_content:
  "\<not> truthy (get_prop body ''content'') \<Longrightarrow>
   memory_store R now disk_ok svc body = (Json 500 (error_body ''Content is required''), svc)"
  by (simp add: memory_store_def storeMemory_def)

text \<open>
  Claim C9. A store request with empty content creates no record and leaves the list
  and the file as they were, but the answer is not the 400 of a validation error:
  \<^verbatim>\<open>storeMemory\<close> throws, and the handler turns whatever is thrown into a 500. The test
  server answers the same request with 400.
\<close>

theorem empty_content_answers_500:
  "post_memory_store test_runtime open_cfg 0 True no_headers example_service empty_content_request
     = (Json 500 (error_body ''Content is required''), example_service) \<and>
   test_server_memory_store test_runtime 0 [] empty_content_request
     = (Json 400 (error_body ''Content is required''), [])"
  by (simp add: post_memory_store_def store_rejects_falsy_content authenticate_def
      bearer_token_def open_cfg_def example_cfg_def no_headers_def empty_content_request_def
      get_prop_def test_server_memory_store_def)

end
